theory Spec2Isabelle
  imports Complex_Main "HOL-Library.AList"
begin

section \<open>Configuration: \<open>drqa/reader/config.py\<close>\<close>

text \<open>
  The index of arguments concerning the optimizer and training, as the module-level set
  literal \<open>MODEL_OPTIMIZER\<close> lists them.
\<close>

definition MODEL_OPTIMIZER :: "string set" where
  "MODEL_OPTIMIZER =
     {''fix_embeddings'', ''optimizer'', ''learning_rate'', ''momentum'', ''weight_decay'',
      ''rnn_padding'', ''dropout_rnn'', ''dropout_rnn_output'', ''dropout_emb'',
      ''max_len'', ''grad_clipping'', ''tune_partial'', ''learning_rate_scheduler'',
      ''learning_rate_patience'', ''learning_rate_factor''}"

text \<open>
  A namespace is read through \<open>vars\<close> as a dictionary: here an association list from
  attribute names to values, looked up with \<open>map_of\<close> and assigned with
  \<open>AList.update\<close> (an assignment to a key that is present keeps its position).
  The values are of any type; Python's \<open>!=\<close> on them is the parameter \<open>ne\<close>.
  The calls of \<open>logger.info\<close> write to the log only and are left out.
\<close>

type_synonym 'v namespace = "(string \<times> 'v) list"

text \<open>
  The body of \<open>for k in old_args.keys()\<close>, for the keys still to be visited. The
  dictionary of the saved arguments is updated in place, so it is threaded through.
  A key of the loop is always a key of \<open>old_args\<close>; the branch for a missing one
  is never taken and leaves the dictionary alone.
\<close>

fun override_loop ::
  "('v \<Rightarrow> 'v \<Rightarrow> bool) \<Rightarrow> string list \<Rightarrow> 'v namespace \<Rightarrow> 'v namespace \<Rightarrow> 'v namespace" where
  "override_loop ne [] old_args new_args = old_args"
| "override_loop ne (k # ks) old_args new_args =
     (case (map_of old_args k, map_of new_args k) of
        (Some ov, Some nv) \<Rightarrow>
          if ne ov nv then
            (if k \<in> MODEL_OPTIMIZER
             then override_loop ne ks (AList.update k nv old_args) new_args
             else override_loop ne ks old_args new_args)
          else override_loop ne ks old_args new_args
      | _ \<Rightarrow> override_loop ne ks old_args new_args)"

definition override_model_args ::
  "('v \<Rightarrow> 'v \<Rightarrow> bool) \<Rightarrow> 'v namespace \<Rightarrow> 'v namespace \<Rightarrow> 'v namespace" where
  "override_model_args ne old_args new_args =
     override_loop ne (map fst old_args) old_args new_args"

section \<open>Cosine similarity: \<open>drqa/module/similarity_functions/cosine.py\<close>\<close>

text \<open>
  Tensors of any rank at least one: a row of numbers along the last dimension, or a stack
  of tensors along a leading one. Numbers are reals. A division by zero gives no finite
  number in the source (\<open>nan\<close> or \<open>inf\<close>); the model gives \<open>None\<close> there, and
  products and sums with \<open>None\<close> are \<open>None\<close>.
\<close>

datatype tensor = Row "real list" | Stack "tensor list"

datatype out = Scalar "real option" | Outs "out list"

definition fdiv :: "real \<Rightarrow> real \<Rightarrow> real option" where
  "fdiv x n = (if n = 0 then None else Some (x / n))"

definition fmul :: "real option \<Rightarrow> real option \<Rightarrow> real option" where
  "fmul a b = (case (a, b) of (Some x, Some y) \<Rightarrow> Some (x * y) | _ \<Rightarrow> None)"

definition fadd :: "real option \<Rightarrow> real option \<Rightarrow> real option" where
  "fadd a b = (case (a, b) of (Some x, Some y) \<Rightarrow> Some (x + y) | _ \<Rightarrow> None)"

text \<open>\<open>t.sum(dim=-1)\<close> on one row.\<close>

definition fsum :: "real option list \<Rightarrow> real option" where
  "fsum xs = foldr fadd xs (Some 0)"

text \<open>\<open>t.norm(dim=-1, keepdim=True)\<close> on one row: the Euclidean norm.\<close>

definition norm_row :: "real list \<Rightarrow> real" where
  "norm_row xs = sqrt (sum_list (map (\<lambda>x. x * x) xs))"

text \<open>\<open>t / t.norm(dim=-1, keepdim=True)\<close> on one row: the division is not guarded.\<close>

definition normalized :: "real list \<Rightarrow> real option list" where
  "normalized xs = map (\<lambda>x. fdiv x (norm_row xs)) xs"

definition cosine_row :: "real list \<Rightarrow> real list \<Rightarrow> real option" where
  "cosine_row xs ys = fsum (map2 fmul (normalized xs) (normalized ys))"

text \<open>
  \<open>CosineSimilarity.forward\<close>. The model covers two tensors of the same shape and
  gives \<open>None\<close> for any other pair, where the source broadcasts or raises.
\<close>

fun CosineSimilarity_forward :: "tensor \<Rightarrow> tensor \<Rightarrow> out option"
  and forward_stack :: "tensor list \<Rightarrow> tensor list \<Rightarrow> out list option" where
  "CosineSimilarity_forward (Row xs) (Row ys) =
     (if length xs = length ys then Some (Scalar (cosine_row xs ys)) else None)"
| "CosineSimilarity_forward (Stack ts) (Stack us) = map_option Outs (forward_stack ts us)"
| "CosineSimilarity_forward (Row xs) (Stack us) = None"
| "CosineSimilarity_forward (Stack ts) (Row ys) = None"
| "forward_stack [] [] = Some []"
| "forward_stack (t # ts) (u # us) =
     (case CosineSimilarity_forward t u of
        None \<Rightarrow> None
      | Some r \<Rightarrow> map_option ((#) r) (forward_stack ts us))"
| "forward_stack [] (u # us) = None"
| "forward_stack (t # ts) [] = None"

text \<open>Two tensors have the same shape.\<close>

fun same_shape :: "tensor \<Rightarrow> tensor \<Rightarrow> bool"
  and same_shapes :: "tensor list \<Rightarrow> tensor list \<Rightarrow> bool" where
  "same_shape (Row xs) (Row ys) = (length xs = length ys)"
| "same_shape (Stack ts) (Stack us) = same_shapes ts us"
| "same_shape (Row xs) (Stack us) = False"
| "same_shape (Stack ts) (Row ys) = False"
| "same_shapes [] [] = True"
| "same_shapes (t # ts) (u # us) = (same_shape t u \<and> same_shapes ts us)"
| "same_shapes [] (u # us) = False"
| "same_shapes (t # ts) [] = False"

text \<open>Every vector along the last dimension has a norm other than zero.\<close>

fun nonzero_norms :: "tensor \<Rightarrow> bool" where
  "nonzero_norms (Row xs) = (norm_row xs \<noteq> 0)"
| "nonzero_norms (Stack ts) = list_all nonzero_norms ts"

text \<open>Every entry of a result is a finite number.\<close>

fun finite_out :: "out \<Rightarrow> bool" where
  "finite_out (Scalar r) = (r \<noteq> None)"
| "finite_out (Outs rs) = list_all finite_out rs"

section \<open>The FusionNet reader: \<open>drqa/reader/fusionnet_reader.py\<close>\<close>

subsection \<open>Tensors, errors\<close>

text \<open>
  A vector is a list of reals, a sequence a list of vectors (\<open>[len, dim]\<close>), a batch a
  list of sequences (\<open>[batch, len, dim]\<close>). A padding mask has one truth value for
  every position of every sequence, \<open>True\<close> at padding.
\<close>

type_synonym vec = "real list"
type_synonym seq = "vec list"
type_synonym tensor2 = "real list list"
type_synonym tensor3 = "seq list"
type_synonym mask = "bool list list"

datatype error =
    AttributeError
  | AssertionError
  | IndexError
  | SizeMismatch
  | UndefinedSoftmax

definition bind_err :: "error + 'a \<Rightarrow> ('a \<Rightarrow> error + 'b) \<Rightarrow> error + 'b" where
  "bind_err r f = (case r of Inl e \<Rightarrow> Inl e | Inr v \<Rightarrow> f v)"

fun map_err :: "('a \<Rightarrow> error + 'b) \<Rightarrow> 'a list \<Rightarrow> error + 'b list" where
  "map_err f [] = Inr []"
| "map_err f (x # xs) =
     bind_err (f x) (\<lambda>y. bind_err (map_err f xs) (\<lambda>ys. Inr (y # ys)))"

text \<open>Two tensors have the same batch size and, item by item, the same length.\<close>

definition conforms :: "'a list list \<Rightarrow> 'b list list \<Rightarrow> bool" where
  "conforms t u = list_all2 (\<lambda>s r. length s = length r) t u"

text \<open>The vectors of one token, one after the other, for tensors of one shape.\<close>

fun cat_tokens :: "tensor3 list \<Rightarrow> tensor3" where
  "cat_tokens [] = []"
| "cat_tokens [t] = t"
| "cat_tokens (t # ts) = map2 (map2 (@)) t (cat_tokens ts)"

text \<open>
  \<open>torch.cat(ts, dim=2)\<close>: it raises on an empty list and on tensors that differ in
  batch size or length.
\<close>

definition cat2 :: "tensor3 list \<Rightarrow> error + tensor3" where
  "cat2 ts =
     (case ts of
        [] \<Rightarrow> Inl SizeMismatch
      | t # us \<Rightarrow>
          if list_all (\<lambda>u. conforms u t) us then Inr (cat_tokens ts) else Inl SizeMismatch)"

subsection \<open>The layers of \<open>drqa/reader/layers.py\<close>\<close>

text \<open>
  Modelled from the spec: the exponentials under the masked softmax of the attention
  layers of \<open>layers.py\<close> (SymBilinearAttnMatch, LinearSeqAttn, BilinearSeqAttn), which is
  not among the sources. A padding position is set to minus infinity before the softmax
  (spec 4.2), so its exponential is zero whatever its score.
\<close>

definition exps :: "real list \<Rightarrow> bool list \<Rightarrow> real list" where
  "exps scores msk = map2 (\<lambda>s p. if p then 0 else exp s) scores msk"

text \<open>
  Modelled from the spec: the masked softmax of those layers (spec 4.2). A row with every
  position masked has denominator zero and no defined result; a mask of another length
  than the scores is a size error.
\<close>

definition masked_softmax :: "real list \<Rightarrow> bool list \<Rightarrow> error + real list" where
  "masked_softmax scores msk =
     (if length scores \<noteq> length msk then Inl SizeMismatch
      else
        let es = exps scores msk;
            z = sum_list es
        in if z = 0 then Inl UndefinedSoftmax else Inr (map (\<lambda>e. e / z) es))"

text \<open>The dot product of two vectors.\<close>

definition dot :: "vec \<Rightarrow> vec \<Rightarrow> real" where
  "dot a b = sum_list (map2 (*) a b)"

text \<open>
  Modelled from the spec: \<open>output_i = \<Sum>_j weight_ij * value_j\<close> (spec 4.2), also
  \<open>layers.weighted_avg\<close> (spec 4.5, 4.6): the sum of the vectors of a sequence, each
  scaled by its weight.
\<close>

definition weighted_sum :: "seq \<Rightarrow> real list \<Rightarrow> vec" where
  "weighted_sum vs ws =
     map (\<lambda>k. sum_list (map2 (\<lambda>w v. w * v ! k) ws vs))
       [0 ..< (case vs of [] \<Rightarrow> 0 | v # _ \<Rightarrow> length v)]"

text \<open>
  Modelled from the spec: \<open>layers.weighted_avg\<close> (spec 4.5, 4.6), the weighted sum of
  every batch item.
\<close>

definition weighted_avg :: "tensor3 \<Rightarrow> tensor2 \<Rightarrow> tensor2" where
  "weighted_avg x weights = map2 weighted_sum x weights"

text \<open>
  Modelled from the spec: \<open>layers.SymBilinearAttnMatch\<close> (spec 4.2). The learned
  projection followed by the activation, \<open>a \<mapsto> activation(a W)\<close>, is the parameter
  \<open>proj\<close>; the score of two tokens is the dot product of their projections. The weights of
  one sequence \<open>x\<close> against \<open>y\<close>: one row for every token of \<open>x\<close>, a softmax over the
  tokens of \<open>y\<close> under the mask of \<open>y\<close>.
\<close>

definition attn_weights :: "(vec \<Rightarrow> vec) \<Rightarrow> seq \<Rightarrow> seq \<Rightarrow> bool list \<Rightarrow> error + real list list" where
  "attn_weights proj x y y_mask =
     map_err (\<lambda>xi. masked_softmax (map (\<lambda>yj. dot (proj xi) (proj yj)) y) y_mask) x"

text \<open>
  Modelled from the spec: the attention weight matrix \<open>[batch, len_x, len_y]\<close> of
  \<open>layers.SymBilinearAttnMatch\<close> (spec 3, 4.2), batch item by batch item.
\<close>

definition SymBilinearAttnMatch_weights ::
  "(vec \<Rightarrow> vec) \<Rightarrow> tensor3 \<Rightarrow> tensor3 \<Rightarrow> mask \<Rightarrow> error + real list list list" where
  "SymBilinearAttnMatch_weights proj x y y_mask =
     (if length x = length y \<and> length y = length y_mask
      then map_err (\<lambda>(xb, yb, mb). attn_weights proj xb yb mb) (zip x (zip y y_mask))
      else Inl SizeMismatch)"

text \<open>
  Modelled from the spec: the result of \<open>layers.SymBilinearAttnMatch\<close> (spec 4.2), the
  sum of the value vectors \<open>v\<close> weighted by every row of the weight matrix; the values
  are aligned with the second sequence.
\<close>

definition SymBilinearAttnMatch ::
  "(vec \<Rightarrow> vec) \<Rightarrow> tensor3 \<Rightarrow> tensor3 \<Rightarrow> mask \<Rightarrow> tensor3 \<Rightarrow> error + tensor3" where
  "SymBilinearAttnMatch proj x y y_mask v =
     bind_err (SymBilinearAttnMatch_weights proj x y y_mask) (\<lambda>w.
       if length v = length y_mask \<and> list_all2 (\<lambda>vb mb. length vb = length mb) v y_mask
       then Inr (map2 (\<lambda>vb wb. map (weighted_sum vb) wb) v w)
       else Inl SizeMismatch)"

text \<open>
  Modelled from the spec: \<open>layers.LinearSeqAttn\<close> (spec 4.5): a linear score of every
  position, the parameter \<open>score\<close>, and a softmax over the sequence under its mask.
\<close>

definition LinearSeqAttn :: "(vec \<Rightarrow> real) \<Rightarrow> tensor3 \<Rightarrow> mask \<Rightarrow> error + tensor2" where
  "LinearSeqAttn score x x_mask =
     (if length x = length x_mask
      then map_err (\<lambda>(xb, mb). masked_softmax (map score xb) mb) (zip x x_mask)
      else Inl SizeMismatch)"

text \<open>
  Modelled from the spec: \<open>layers.BilinearSeqAttn\<close> with \<open>log_normalize=False\<close>
  (spec 4.6): the bilinear score of every position of \<open>x\<close> with the one vector \<open>y\<close> of
  its batch item, the parameter \<open>score\<close>, and a softmax over the positions of \<open>x\<close> under
  the mask of \<open>x\<close>.
\<close>

definition BilinearSeqAttn ::
  "(vec \<Rightarrow> vec \<Rightarrow> real) \<Rightarrow> tensor3 \<Rightarrow> tensor2 \<Rightarrow> mask \<Rightarrow> error + tensor2" where
  "BilinearSeqAttn score x y x_mask =
     (if length x = length y \<and> length y = length x_mask
      then map_err (\<lambda>(xb, yb, mb). masked_softmax (map (\<lambda>xi. score xi yb) xb) mb)
             (zip x (zip y x_mask))
      else Inl SizeMismatch)"

text \<open>
  \<open>layers.StackedBRNN\<close> is a learned function of a batch and its mask; it sees the mode of
  the module (its own dropout is active in training mode only), the first argument.
\<close>

type_synonym rnn = "bool \<Rightarrow> tensor3 \<Rightarrow> mask \<Rightarrow> tensor3"

subsection \<open>The module\<close>

record args =
  vocab_size :: nat
  embedding_dim :: nat
  num_features :: nat
  hidden_size :: nat
  doc_layers :: nat
  question_layers :: nat
  concat_rnn_layers :: bool
  use_qemb :: bool
  use_cove :: bool
  cove_embedding_dim :: nat
  attention_size :: nat
  dropout_emb :: real
  dropout_rnn :: real
  dropout_rnn_output :: bool
  rnn_padding :: bool

text \<open>
  What the constructor draws or loads and the forward pass only applies: the initial
  embedding matrix, the external CoVe encoder, the learned functions of the layers, and
  the random part of \<open>nn.functional.dropout\<close> in training mode.
\<close>

record learned =
  embedding_weight :: "vec list"
  MTLSTM :: "tensor3 \<Rightarrow> nat list \<Rightarrow> tensor3"
  SeqAttnMatch :: "tensor3 \<Rightarrow> tensor3 \<Rightarrow> mask \<Rightarrow> tensor3"
  reading_low_level_doc_rnn :: rnn
  reading_low_level_question_rnn :: rnn
  reading_high_level_doc_rnn :: rnn
  reading_high_level_question_rnn :: rnn
  understanding_question_rnn :: rnn
  low_level_matrix_attention_layer :: "vec \<Rightarrow> vec"
  high_level_matrix_attention_layer :: "vec \<Rightarrow> vec"
  understanding_matrix_attention_layer :: "vec \<Rightarrow> vec"
  multi_level_rnn :: rnn
  self_boosted_matrix_attention_layer :: "vec \<Rightarrow> vec"
  understanding_doc_rnn :: rnn
  question_self_attn :: "vec \<Rightarrow> real"
  start_attn :: "vec \<Rightarrow> vec \<Rightarrow> real"
  start_gru :: "vec \<Rightarrow> vec \<Rightarrow> vec"
  end_attn :: "vec \<Rightarrow> vec \<Rightarrow> real"
  dropout_sample :: "real \<Rightarrow> tensor3 \<Rightarrow> tensor3"

text \<open>
  The attributes of a \<open>FusionNetReader\<close>. \<open>cove_encoder\<close> and \<open>qemb_match\<close> are set
  by the constructor under a condition, so they may be missing.
\<close>

record reader =
  args :: args
  training :: bool
  embedding :: "vec list"
  cove_encoder :: "(tensor3 \<Rightarrow> nat list \<Rightarrow> tensor3) option"
  qemb_match :: "(tensor3 \<Rightarrow> tensor3 \<Rightarrow> mask \<Rightarrow> tensor3) option"
  layers :: learned

text \<open>
  \<open>nn.Embedding(vocab_size, embedding_dim, padding_idx=0)\<close>: the index of the padding
  row has to be a row of the matrix, and that row is filled with zeros.
\<close>

definition Embedding :: "nat \<Rightarrow> nat \<Rightarrow> nat \<Rightarrow> vec list \<Rightarrow> error + vec list" where
  "Embedding num_embeddings emb_dim padding_idx weight =
     (if padding_idx < num_embeddings
      then Inr (weight[padding_idx := replicate emb_dim 0])
      else Inl AssertionError)"

text \<open>The lookup of a batch of token ids; an id that is no row raises.\<close>

definition Embedding_forward :: "vec list \<Rightarrow> nat list list \<Rightarrow> error + tensor3" where
  "Embedding_forward weight x =
     map_err (map_err (\<lambda>i. if i < length weight then Inr (weight ! i) else Inl IndexError)) x"

text \<open>\<open>FusionNetReader.__init__\<close>: a new module is in training mode.\<close>

definition FusionNetReader :: "args \<Rightarrow> learned \<Rightarrow> error + reader" where
  "FusionNetReader a w =
     bind_err (Embedding (vocab_size a) (embedding_dim a) 0 (embedding_weight w)) (\<lambda>emb.
       Inr \<lparr> args = a,
             training = True,
             embedding = emb,
             cove_encoder =
               (if use_cove a \<and> embedding_dim a = 300 then Some (MTLSTM w) else None),
             qemb_match = (if use_qemb a then Some (SeqAttnMatch w) else None),
             layers = w \<rparr>)"

subsection \<open>\<open>FusionNetReader.forward\<close>\<close>

text \<open>
  The pass on values: what \<open>forward\<close> computes from the token ids, the features and the
  masks, with the errors of a missing attribute, of a token id that is no row of the
  embedding, of a concatenation of tensors of different batch size or length, of
  sequences and masks of different lengths and of a softmax with every position masked. Whether the sizes of the vectors fit the sizes the layers were built
  for is the matter of \<open>forward_shape\<close> in the next subsection.
\<close>

text \<open>
  \<open>nn.functional.dropout(x, p, training)\<close>: the identity outside training mode, a
  random thinning of the tensor in training mode.
\<close>

definition F_dropout :: "learned \<Rightarrow> tensor3 \<Rightarrow> real \<Rightarrow> bool \<Rightarrow> tensor3" where
  "F_dropout w x p tr = (if tr then dropout_sample w p x else x)"

text \<open>\<open>mask.data.eq(0).long().sum(1)\<close>: the number of positions that are not padding.\<close>

definition lengths :: "mask \<Rightarrow> nat list" where
  "lengths msk = map (\<lambda>row. length (filter (\<lambda>p. \<not> p) row)) msk"

text \<open>\<open>self.embedding(x)\<close>, the first two statements of \<open>forward\<close>.\<close>

definition embed_ids :: "reader \<Rightarrow> nat list list \<Rightarrow> error + tensor3" where
  "embed_ids m x = Embedding_forward (embedding m) x"

text \<open>The tensors of the encoding stage, from the embeddings to the question understanding.\<close>

record encoded =
  x1_word_emb :: tensor3
  x2_word_emb :: tensor3
  x1_cove_emb :: tensor3
  x2_cove_emb :: tensor3
  low_level_doc_hiddens :: tensor3
  low_level_question_hiddens :: tensor3
  high_level_doc_hiddens :: tensor3
  high_level_question_hiddens :: tensor3
  understanding_question_hiddens :: tensor3

text \<open>
  The first part of \<open>forward\<close>, up to \<open>understanding_question_hiddens\<close>. Reading an
  attribute the constructor did not set raises \<open>AttributeError\<close>; \<open>cove_encoder\<close> is
  read whatever the configuration says.
\<close>

definition encode ::
  "reader \<Rightarrow> nat list list \<Rightarrow> tensor3 \<Rightarrow> mask \<Rightarrow> nat list list \<Rightarrow> mask \<Rightarrow> error + encoded" where
  "encode m x1 x1_f x1_mask x2 x2_mask =
     bind_err (embed_ids m x1) (\<lambda>x1_word_emb.
     bind_err (embed_ids m x2) (\<lambda>x2_word_emb.
     let x1_lengths = lengths x1_mask;
         x2_lengths = lengths x2_mask
     in
     bind_err (case cove_encoder m of None \<Rightarrow> Inl AttributeError | Some c \<Rightarrow> Inr c) (\<lambda>cove.
     let x1_cove_emb = cove x1_word_emb x1_lengths;
         x2_cove_emb = cove x2_word_emb x2_lengths
     in
     bind_err (cat2 [x1_word_emb, x1_cove_emb]) (\<lambda>x1_emb0.
     bind_err (cat2 [x2_word_emb, x2_cove_emb]) (\<lambda>x2_emb0.
     let x1_emb = (if dropout_emb (args m) > 0
                   then F_dropout (layers m) x1_emb0 (dropout_emb (args m)) (training m)
                   else x1_emb0);
         x2_emb = (if dropout_emb (args m) > 0
                   then F_dropout (layers m) x2_emb0 (dropout_emb (args m)) (training m)
                   else x2_emb0)
     in
     bind_err (if use_qemb (args m)
               then (case qemb_match m of
                       None \<Rightarrow> Inl AttributeError
                     | Some q \<Rightarrow> Inr [x1_emb, q x1_word_emb x2_word_emb x2_mask])
               else Inr [x1_emb]) (\<lambda>drnn_input0.
     bind_err (cat2 (if num_features (args m) > 0 then drnn_input0 @ [x1_f] else drnn_input0))
       (\<lambda>drnn_input.
     let low_doc = reading_low_level_doc_rnn (layers m) (training m) drnn_input x1_mask;
         low_question = reading_low_level_question_rnn (layers m) (training m) x2_emb x2_mask;
         high_doc = reading_high_level_doc_rnn (layers m) (training m) low_doc x1_mask;
         high_question =
           reading_high_level_question_rnn (layers m) (training m) low_question x2_mask
     in
     bind_err (cat2 [low_question, high_question]) (\<lambda>und_input.
     Inr \<lparr> x1_word_emb = x1_word_emb,
           x2_word_emb = x2_word_emb,
           x1_cove_emb = x1_cove_emb,
           x2_cove_emb = x2_cove_emb,
           low_level_doc_hiddens = low_doc,
           low_level_question_hiddens = low_question,
           high_level_doc_hiddens = high_doc,
           high_level_question_hiddens = high_question,
           understanding_question_hiddens =
             understanding_question_rnn (layers m) (training m) und_input x2_mask \<rparr>))))))))"

text \<open>The two history tensors, as the two \<open>torch.cat\<close> calls of \<open>forward\<close> build them.\<close>

definition history_of_doc_word :: "encoded \<Rightarrow> error + tensor3" where
  "history_of_doc_word e =
     cat2 [x1_word_emb e, x1_cove_emb e, low_level_doc_hiddens e, high_level_doc_hiddens e]"

definition history_of_question_word :: "encoded \<Rightarrow> error + tensor3" where
  "history_of_question_word e =
     cat2 [x2_word_emb e, x2_cove_emb e, low_level_question_hiddens e,
           low_level_question_hiddens e]"

text \<open>The tensors of the fusion stage.\<close>

record fused =
  low_level_doc_question_vectors :: tensor3
  high_level_doc_question_vectors :: tensor3
  understanding_doc_question_vectors :: tensor3
  fa_multi_level_doc_hiddens :: tensor3
  history_of_doc_word2 :: tensor3
  self_boosted_vectors :: tensor3
  understanding_doc_hiddens :: tensor3

text \<open>
  The second part of \<open>forward\<close>: the three attention passes of the document over the
  question, the multi-level encoder, the self-boosted attention and the last document
  encoder.
\<close>

definition fuse :: "reader \<Rightarrow> encoded \<Rightarrow> mask \<Rightarrow> mask \<Rightarrow> error + fused" where
  "fuse m e x1_mask x2_mask =
     bind_err (history_of_doc_word e) (\<lambda>hist_doc.
     bind_err (history_of_question_word e) (\<lambda>hist_question.
     bind_err (SymBilinearAttnMatch (low_level_matrix_attention_layer (layers m))
                 hist_doc hist_question x2_mask (low_level_question_hiddens e)) (\<lambda>low_v.
     bind_err (SymBilinearAttnMatch (high_level_matrix_attention_layer (layers m))
                 hist_doc hist_question x2_mask (high_level_question_hiddens e)) (\<lambda>high_v.
     bind_err (SymBilinearAttnMatch (understanding_matrix_attention_layer (layers m))
                 hist_doc hist_question x2_mask (understanding_question_hiddens e)) (\<lambda>und_v.
     bind_err (cat2 [low_level_doc_hiddens e, high_level_doc_hiddens e, low_v, high_v, und_v])
       (\<lambda>multi_input.
     let fa = multi_level_rnn (layers m) (training m) multi_input x1_mask
     in
     bind_err (cat2 [x1_word_emb e, x1_cove_emb e, low_level_doc_hiddens e,
                     high_level_doc_hiddens e, low_v, high_v, und_v, fa]) (\<lambda>h2.
     bind_err (SymBilinearAttnMatch (self_boosted_matrix_attention_layer (layers m))
                 h2 h2 x1_mask fa) (\<lambda>self_v.
     bind_err (cat2 [fa, self_v]) (\<lambda>und_doc_input.
     Inr \<lparr> low_level_doc_question_vectors = low_v,
           high_level_doc_question_vectors = high_v,
           understanding_doc_question_vectors = und_v,
           fa_multi_level_doc_hiddens = fa,
           history_of_doc_word2 = h2,
           self_boosted_vectors = self_v,
           understanding_doc_hiddens =
             understanding_doc_rnn (layers m) (training m) und_doc_input x1_mask \<rparr>)))))))))"

text \<open>The pooled question vector: \<open>question_self_attn\<close> and \<open>weighted_avg\<close>.\<close>

definition pool_question :: "reader \<Rightarrow> encoded \<Rightarrow> mask \<Rightarrow> error + tensor2" where
  "pool_question m e x2_mask =
     bind_err (LinearSeqAttn (question_self_attn (layers m))
                 (understanding_question_hiddens e) x2_mask) (\<lambda>q_merge_weights.
     Inr (weighted_avg (understanding_question_hiddens e) q_merge_weights))"

text \<open>
  The single step of \<open>start_gru\<close> on every batch item: the input is unsqueezed to a
  sequence of length one, the initial hidden state is the second argument, and the hidden
  state after the step is the result.
\<close>

definition gru_step :: "reader \<Rightarrow> tensor2 \<Rightarrow> tensor2 \<Rightarrow> tensor2" where
  "gru_step m gru_input h0 = map2 (start_gru (layers m)) gru_input h0"

text \<open>The span decoder: the start scores, the memory and the end scores.\<close>

definition decode :: "reader \<Rightarrow> tensor3 \<Rightarrow> tensor2 \<Rightarrow> mask \<Rightarrow> error + tensor2 \<times> tensor2" where
  "decode m doc_hiddens question_hidden x1_mask =
     bind_err (BilinearSeqAttn (start_attn (layers m)) doc_hiddens question_hidden x1_mask)
       (\<lambda>start_scores.
     let gru_input = weighted_avg doc_hiddens start_scores;
         memory_hidden = gru_step m gru_input question_hidden
     in
     bind_err (BilinearSeqAttn (end_attn (layers m)) doc_hiddens memory_hidden x1_mask)
       (\<lambda>end_scores.
     Inr (start_scores, end_scores)))"

text \<open>\<open>forward\<close> up to the last \<open>if\<close>: the two distributions before the conversion.\<close>

definition forward_scores ::
  "reader \<Rightarrow> nat list list \<Rightarrow> tensor3 \<Rightarrow> mask \<Rightarrow> nat list list \<Rightarrow> mask
     \<Rightarrow> error + tensor2 \<times> tensor2" where
  "forward_scores m x1 x1_f x1_mask x2 x2_mask =
     bind_err (encode m x1 x1_f x1_mask x2 x2_mask) (\<lambda>e.
     bind_err (fuse m e x1_mask x2_mask) (\<lambda>f.
     bind_err (pool_question m e x2_mask) (\<lambda>question_hidden.
     decode m (understanding_doc_hiddens f) question_hidden x1_mask)))"

text \<open>\<open>torch.log(scores.add(1e-8))\<close>, elementwise.\<close>

definition log_scores :: "tensor2 \<Rightarrow> tensor2" where
  "log_scores scores = map (map (\<lambda>p. ln (p + 1 / 10 ^ 8))) scores"

definition forward ::
  "reader \<Rightarrow> nat list list \<Rightarrow> tensor3 \<Rightarrow> mask \<Rightarrow> nat list list \<Rightarrow> mask
     \<Rightarrow> error + tensor2 \<times> tensor2" where
  "forward m x1 x1_f x1_mask x2 x2_mask =
     bind_err (forward_scores m x1 x1_f x1_mask x2 x2_mask) (\<lambda>(start_scores, end_scores).
       if training m
       then Inr (log_scores start_scores, log_scores end_scores)
       else Inr (start_scores, end_scores))"

text \<open>
  A call of the module in a mode. \<open>forward\<close> assigns no attribute of \<open>self\<close> and changes
  no parameter in place, so the module after the call, whether it returns or raises, has
  the attributes it had before; only the mode is the one the call was made in.
\<close>

type_synonym inputs = "nat list list \<times> tensor3 \<times> mask \<times> nat list list \<times> mask"

definition forward_call ::
  "reader \<Rightarrow> bool \<Rightarrow> inputs \<Rightarrow> (error + tensor2 \<times> tensor2) \<times> reader" where
  "forward_call m tr i =
     (case i of (x1, x1_f, x1_mask, x2, x2_mask) \<Rightarrow>
        (forward (m\<lparr>training := tr\<rparr>) x1 x1_f x1_mask x2 x2_mask, m\<lparr>training := tr\<rparr>))"

text \<open>The module after a series of calls.\<close>

fun after_calls :: "reader \<Rightarrow> (bool \<times> inputs) list \<Rightarrow> reader" where
  "after_calls m [] = m"
| "after_calls m ((tr, i) # cs) = after_calls (snd (forward_call m tr i)) cs"

subsection \<open>The sizes of the layers and the shapes of the tensors\<close>

text \<open>The sizes that \<open>__init__\<close> computes and hands to the layers.\<close>

definition doc_input_size :: "args \<Rightarrow> nat" where
  "doc_input_size a =
     embedding_dim a + num_features a
     + (if use_cove a then 2 * cove_embedding_dim a else 0)
     + (if use_qemb a then embedding_dim a else 0)"

definition question_input_size :: "args \<Rightarrow> nat" where
  "question_input_size a =
     embedding_dim a + (if use_cove a then 2 * cove_embedding_dim a else 0)"

definition history_of_word_size :: "args \<Rightarrow> nat" where
  "history_of_word_size a = embedding_dim a + 2 * cove_embedding_dim a + 4 * hidden_size a"

definition history_of_doc_word_size :: "args \<Rightarrow> nat" where
  "history_of_doc_word_size a = history_of_word_size a + 4 * 2 * hidden_size a"

definition doc_hidden_size :: "args \<Rightarrow> nat" where
  "doc_hidden_size a =
     (if concat_rnn_layers a then 2 * hidden_size a * doc_layers a else 2 * hidden_size a)"

definition question_hidden_size :: "args \<Rightarrow> nat" where
  "question_hidden_size a =
     (if concat_rnn_layers a then 2 * hidden_size a * question_layers a else 2 * hidden_size a)"

text \<open>
  The shape of a tensor is the list of its dimensions. Every layer has a rule: the shape
  of its result from the shapes of its arguments, or a size error where an argument does
  not have the size the layer was built for.
\<close>

type_synonym shape = "nat list"

definition Embedding_shape :: "nat \<Rightarrow> shape \<Rightarrow> error + shape" where
  "Embedding_shape emb_dim x =
     (case x of [b, l] \<Rightarrow> Inr [b, l, emb_dim] | _ \<Rightarrow> Inl SizeMismatch)"

text \<open>
  The external CoVe encoder \<open>MTLSTM()\<close>, built without embeddings of its own: it reads
  vectors of 300 entries (the comment and the guard of the constructor) and gives 600 for
  every token.
\<close>

definition MTLSTM_shape :: "shape \<Rightarrow> shape \<Rightarrow> error + shape" where
  "MTLSTM_shape x lens =
     (case x of
        [b, l, d] \<Rightarrow> if d = 300 \<and> lens = [b] then Inr [b, l, 600] else Inl SizeMismatch
      | _ \<Rightarrow> Inl SizeMismatch)"

text \<open>\<open>torch.cat(ts, dim=2)\<close>: the same batch and length, the last dimensions added.\<close>

fun cat2_shape :: "shape list \<Rightarrow> error + shape" where
  "cat2_shape [] = Inl SizeMismatch"
| "cat2_shape [t] = (case t of [b, l, d] \<Rightarrow> Inr t | _ \<Rightarrow> Inl SizeMismatch)"
| "cat2_shape (t # ts) =
     bind_err (cat2_shape ts) (\<lambda>r.
       case (t, r) of
         ([b, l, d], [b', l', d']) \<Rightarrow>
           if b = b' \<and> l = l' then Inr [b, l, d + d'] else Inl SizeMismatch
       | _ \<Rightarrow> Inl SizeMismatch)"

text \<open>
  Modelled from the spec: \<open>layers.StackedBRNN\<close> (spec 4.1): from \<open>[batch, len, in_dim]\<close>
  and a mask to \<open>2 * hidden_size\<close> for every layer, and times the number of layers when
  the layers are concatenated. Every encoder of this reader is built with \<open>num_layers=1\<close>.
\<close>

definition StackedBRNN_shape ::
  "nat \<Rightarrow> nat \<Rightarrow> nat \<Rightarrow> bool \<Rightarrow> shape \<Rightarrow> shape \<Rightarrow> error + shape" where
  "StackedBRNN_shape input_size hidden n_layers concat_layers x x_mask =
     (case x of
        [b, l, d] \<Rightarrow>
          if d = input_size \<and> x_mask = [b, l]
          then Inr [b, l, if concat_layers then 2 * hidden * n_layers else 2 * hidden]
          else Inl SizeMismatch
      | _ \<Rightarrow> Inl SizeMismatch)"

text \<open>
  Modelled from the spec: \<open>layers.SymBilinearAttnMatch(input_size, attention_size)\<close>
  (spec 4.2): both token sequences are projected by the one matrix, so both have vectors
  of \<open>input_size\<close>; the result has the length of the first and the vectors of the values.
\<close>

definition SymBilinearAttnMatch_shape ::
  "nat \<Rightarrow> shape \<Rightarrow> shape \<Rightarrow> shape \<Rightarrow> shape \<Rightarrow> error + shape" where
  "SymBilinearAttnMatch_shape input_size x y y_mask v =
     (case (x, y, v) of
        ([b, lx, dx], [b', ly, dy], [b'', lv, dv]) \<Rightarrow>
          if dx = input_size \<and> dy = input_size \<and> b' = b \<and> b'' = b \<and> lv = ly
             \<and> y_mask = [b, ly]
          then Inr [b, lx, dv]
          else Inl SizeMismatch
      | _ \<Rightarrow> Inl SizeMismatch)"

text \<open>
  Modelled from the spec: \<open>layers.SeqAttnMatch(input_size)\<close>, the question embedding
  aligned to every document token (spec 6): the result has the shape of the first argument.
\<close>

definition SeqAttnMatch_shape :: "nat \<Rightarrow> shape \<Rightarrow> shape \<Rightarrow> shape \<Rightarrow> error + shape" where
  "SeqAttnMatch_shape input_size x y y_mask =
     (case (x, y) of
        ([b, lx, dx], [b', ly, dy]) \<Rightarrow>
          if dx = input_size \<and> dy = input_size \<and> b' = b \<and> y_mask = [b, ly]
          then Inr [b, lx, dx]
          else Inl SizeMismatch
      | _ \<Rightarrow> Inl SizeMismatch)"

text \<open>Modelled from the spec: \<open>layers.LinearSeqAttn(input_size)\<close> (spec 4.5).\<close>

definition LinearSeqAttn_shape :: "nat \<Rightarrow> shape \<Rightarrow> shape \<Rightarrow> error + shape" where
  "LinearSeqAttn_shape input_size x x_mask =
     (case x of
        [b, l, d] \<Rightarrow> if d = input_size \<and> x_mask = [b, l] then Inr [b, l] else Inl SizeMismatch
      | _ \<Rightarrow> Inl SizeMismatch)"

text \<open>Modelled from the spec: \<open>layers.weighted_avg\<close> (spec 4.5).\<close>

definition weighted_avg_shape :: "shape \<Rightarrow> shape \<Rightarrow> error + shape" where
  "weighted_avg_shape x weights =
     (case x of
        [b, l, d] \<Rightarrow> if weights = [b, l] then Inr [b, d] else Inl SizeMismatch
      | _ \<Rightarrow> Inl SizeMismatch)"

text \<open>
  Modelled from the spec: \<open>layers.BilinearSeqAttn(x_size, y_size)\<close> (spec 4.6): a
  bilinear form of a vector of \<open>x_size\<close> and a vector of \<open>y_size\<close>.
\<close>

definition BilinearSeqAttn_shape ::
  "nat \<Rightarrow> nat \<Rightarrow> shape \<Rightarrow> shape \<Rightarrow> shape \<Rightarrow> error + shape" where
  "BilinearSeqAttn_shape x_size y_size x y x_mask =
     (case (x, y) of
        ([b, l, d], [b', d']) \<Rightarrow>
          if d = x_size \<and> d' = y_size \<and> b' = b \<and> x_mask = [b, l]
          then Inr [b, l]
          else Inl SizeMismatch
      | _ \<Rightarrow> Inl SizeMismatch)"

text \<open>
  \<open>nn.GRU(input_size, hidden_size, batch_first=True)\<close> on an input \<open>[batch, 1, input_size]\<close>
  and an initial state \<open>[1, batch, hidden_size]\<close>: the last hidden state has the shape of
  the initial one.
\<close>

definition GRU_shape :: "nat \<Rightarrow> nat \<Rightarrow> shape \<Rightarrow> shape \<Rightarrow> error + shape" where
  "GRU_shape input_size hidden x h0 =
     (case (x, h0) of
        ([b, l, d], [n, b', d']) \<Rightarrow>
          if d = input_size \<and> d' = hidden \<and> b' = b \<and> n = 1
          then Inr [1, b, hidden]
          else Inl SizeMismatch
      | _ \<Rightarrow> Inl SizeMismatch)"

text \<open>\<open>t.unsqueeze(k)\<close> and \<open>t.squeeze(0)\<close>.\<close>

definition unsqueeze :: "nat \<Rightarrow> shape \<Rightarrow> shape" where
  "unsqueeze k t = take k t @ [1] @ drop k t"

definition squeeze0 :: "shape \<Rightarrow> shape" where
  "squeeze0 t = (case t of d # ds \<Rightarrow> if d = 1 then ds else t | [] \<Rightarrow> t)"

text \<open>
  \<open>forward\<close> on shapes, with the layers as \<open>__init__\<close> builds them from the arguments:
  the shapes of \<open>start_scores\<close> and \<open>end_scores\<close>, or the first error.
\<close>

definition forward_shape ::
  "args \<Rightarrow> shape \<Rightarrow> shape \<Rightarrow> shape \<Rightarrow> shape \<Rightarrow> shape \<Rightarrow> error + shape \<times> shape" where
  "forward_shape a x1 x1_f x1_mask x2 x2_mask =
     bind_err (Embedding_shape (embedding_dim a) x1) (\<lambda>x1_word_emb.
     bind_err (Embedding_shape (embedding_dim a) x2) (\<lambda>x2_word_emb.
     bind_err (if use_cove a \<and> embedding_dim a = 300 then Inr () else Inl AttributeError) (\<lambda>_.
     bind_err (MTLSTM_shape x1_word_emb (take 1 x1_mask)) (\<lambda>x1_cove_emb.
     bind_err (MTLSTM_shape x2_word_emb (take 1 x2_mask)) (\<lambda>x2_cove_emb.
     bind_err (cat2_shape [x1_word_emb, x1_cove_emb]) (\<lambda>x1_emb.
     bind_err (cat2_shape [x2_word_emb, x2_cove_emb]) (\<lambda>x2_emb.
     bind_err (if use_qemb a
               then bind_err (SeqAttnMatch_shape (embedding_dim a) x1_word_emb x2_word_emb x2_mask)
                      (\<lambda>x2_weighted_emb. Inr [x1_emb, x2_weighted_emb])
               else Inr [x1_emb]) (\<lambda>drnn_input0.
     bind_err (cat2_shape (if num_features a > 0 then drnn_input0 @ [x1_f] else drnn_input0))
       (\<lambda>drnn_input.
     bind_err (StackedBRNN_shape (doc_input_size a) (hidden_size a) 1 False drnn_input x1_mask)
       (\<lambda>low_doc.
     bind_err (StackedBRNN_shape (question_input_size a) (hidden_size a) 1 False x2_emb x2_mask)
       (\<lambda>low_question.
     bind_err (StackedBRNN_shape (hidden_size a * 2) (hidden_size a) 1 False low_doc x1_mask)
       (\<lambda>high_doc.
     bind_err (StackedBRNN_shape (hidden_size a * 2) (hidden_size a) 1 False low_question x2_mask)
       (\<lambda>high_question.
     bind_err (cat2_shape [low_question, high_question]) (\<lambda>und_input.
     bind_err (StackedBRNN_shape (hidden_size a * 4) (hidden_size a) 1 False und_input x2_mask)
       (\<lambda>und_question.
     bind_err (cat2_shape [x1_word_emb, x1_cove_emb, low_doc, high_doc]) (\<lambda>hist_doc.
     bind_err (cat2_shape [x2_word_emb, x2_cove_emb, low_question, low_question])
       (\<lambda>hist_question.
     bind_err (SymBilinearAttnMatch_shape (history_of_word_size a)
                 hist_doc hist_question x2_mask low_question) (\<lambda>low_v.
     bind_err (SymBilinearAttnMatch_shape (history_of_word_size a)
                 hist_doc hist_question x2_mask high_question) (\<lambda>high_v.
     bind_err (SymBilinearAttnMatch_shape (history_of_word_size a)
                 hist_doc hist_question x2_mask und_question) (\<lambda>und_v.
     bind_err (cat2_shape [low_doc, high_doc, low_v, high_v, und_v]) (\<lambda>multi_input.
     bind_err (StackedBRNN_shape (hidden_size a * 2 * 5) (hidden_size a) 1 False
                 multi_input x1_mask) (\<lambda>fa.
     bind_err (cat2_shape [x1_word_emb, x1_cove_emb, low_doc, high_doc,
                           low_v, high_v, und_v, fa]) (\<lambda>hist_doc2.
     bind_err (SymBilinearAttnMatch_shape (history_of_doc_word_size a)
                 hist_doc2 hist_doc2 x1_mask fa) (\<lambda>self_v.
     bind_err (cat2_shape [fa, self_v]) (\<lambda>und_doc_input.
     bind_err (StackedBRNN_shape (hidden_size a * 2 * 2) (hidden_size a) 1 False
                 und_doc_input x1_mask) (\<lambda>und_doc.
     bind_err (LinearSeqAttn_shape (question_hidden_size a) und_question x2_mask)
       (\<lambda>q_merge_weights.
     bind_err (weighted_avg_shape und_question q_merge_weights) (\<lambda>question_hidden.
     bind_err (BilinearSeqAttn_shape (doc_hidden_size a) (question_hidden_size a)
                 und_doc question_hidden x1_mask) (\<lambda>start_scores.
     bind_err (weighted_avg_shape und_doc start_scores) (\<lambda>gru_input.
     bind_err (GRU_shape (doc_hidden_size a) (hidden_size a * 2)
                 (unsqueeze 1 gru_input) (unsqueeze 0 question_hidden)) (\<lambda>memory.
     bind_err (BilinearSeqAttn_shape (doc_hidden_size a) (question_hidden_size a)
                 und_doc (squeeze0 memory) x1_mask) (\<lambda>end_scores.
     Inr (start_scores, end_scores)))))))))))))))))))))))))))))))))"

text \<open>
  The defaults of \<open>add_model_args\<close> in \<open>config.py\<close>, with CoVe switched on; the size of
  the vocabulary and the number of features are set by the caller.
\<close>

definition default_args :: args where
  "default_args =
     \<lparr> vocab_size = 1000, embedding_dim = 300, num_features = 4, hidden_size = 128,
       doc_layers = 3, question_layers = 3, concat_rnn_layers = True, use_qemb = True,
       use_cove = True, cove_embedding_dim = 300, attention_size = 250,
       dropout_emb = 4 / 10, dropout_rnn = 4 / 10, dropout_rnn_output = True,
       rnn_padding = False \<rparr>"

subsection \<open>What the properties speak of\<close>

text \<open>
  A row of weights over the positions of a mask is a distribution over the positions that
  are not padding: as long as the mask, of sum one, zero at every padding position and
  positive elsewhere.
\<close>

definition distribution :: "real list \<Rightarrow> bool list \<Rightarrow> bool" where
  "distribution w msk \<longleftrightarrow>
     length w = length msk \<and> sum_list w = 1
     \<and> list_all2 (\<lambda>x p. if p then x = 0 else 0 < x) w msk"

text \<open>
  An attention weight matrix \<open>[batch, len_A, len_B]\<close> against the mask of the second
  sequence: every row of every batch item is a distribution.
\<close>

definition attention_distributions :: "real list list list \<Rightarrow> mask \<Rightarrow> bool" where
  "attention_distributions w msk = list_all2 (\<lambda>wb mb. list_all (\<lambda>row. distribution row mb) wb) w msk"

text \<open>Every sequence of a mask has a position that is not padding.\<close>

definition nondegenerate :: "mask \<Rightarrow> bool" where
  "nondegenerate msk = list_all (list_ex Not) msk"

text \<open>
  The contract of the learned functions on shapes (spec 4.1, 6): an encoder called on a
  tensor and a mask of one shape returns a tensor of that batch size and those lengths;
  so does the CoVe encoder for the tensor it reads, the question-embedding layer for its
  first argument, and the dropout sample.
\<close>

definition rnn_shaped :: "rnn \<Rightarrow> bool" where
  "rnn_shaped f \<longleftrightarrow> (\<forall>tr x msk. conforms x msk \<longrightarrow> conforms (f tr x msk) x)"

definition cove_shaped :: "(tensor3 \<Rightarrow> nat list \<Rightarrow> tensor3) \<Rightarrow> bool" where
  "cove_shaped c \<longleftrightarrow> (\<forall>x lens. conforms (c x lens) x)"

definition qemb_shaped :: "(tensor3 \<Rightarrow> tensor3 \<Rightarrow> mask \<Rightarrow> tensor3) \<Rightarrow> bool" where
  "qemb_shaped q \<longleftrightarrow> (\<forall>x y y_mask. conforms (q x y y_mask) x)"

definition dropout_shaped :: "(real \<Rightarrow> tensor3 \<Rightarrow> tensor3) \<Rightarrow> bool" where
  "dropout_shaped d \<longleftrightarrow> (\<forall>p x. conforms (d p x) x)"

definition layers_shaped :: "learned \<Rightarrow> bool" where
  "layers_shaped w \<longleftrightarrow>
     rnn_shaped (reading_low_level_doc_rnn w)
     \<and> rnn_shaped (reading_low_level_question_rnn w)
     \<and> rnn_shaped (reading_high_level_doc_rnn w)
     \<and> rnn_shaped (reading_high_level_question_rnn w)
     \<and> rnn_shaped (understanding_question_rnn w)
     \<and> rnn_shaped (multi_level_rnn w)
     \<and> dropout_shaped (dropout_sample w)"

text \<open>Every token id of a batch is a row of the embedding matrix.\<close>

definition ids_below :: "nat \<Rightarrow> nat list list \<Rightarrow> bool" where
  "ids_below n x = list_all (list_all (\<lambda>i. i < n)) x"

text \<open>
  What a forward pass needs to get through the encoders: the CoVe encoder is there and
  keeps shapes, the question-embedding layer is there and keeps shapes when the
  configuration uses it, the encoders and the dropout keep shapes, every token id is a row
  of the embedding matrix, ids and masks (and the features, when there are any) have the
  same shape, and document and question batch are of one size.
\<close>

definition well_formed_pass ::
  "reader \<Rightarrow> nat list list \<Rightarrow> tensor3 \<Rightarrow> mask \<Rightarrow> nat list list \<Rightarrow> mask \<Rightarrow> bool" where
  "well_formed_pass m x1 x1_f x1_mask x2 x2_mask \<longleftrightarrow>
     (case cove_encoder m of None \<Rightarrow> False | Some c \<Rightarrow> cove_shaped c)
     \<and> (if use_qemb (args m)
         then (case qemb_match m of None \<Rightarrow> False | Some q \<Rightarrow> qemb_shaped q)
         else True)
     \<and> layers_shaped (layers m)
     \<and> ids_below (length (embedding m)) x1 \<and> ids_below (length (embedding m)) x2
     \<and> conforms x1 x1_mask \<and> conforms x2 x2_mask
     \<and> (if num_features (args m) > 0 then conforms x1_f x1_mask else True)
     \<and> length x1_mask = length x2_mask"

text \<open>
  The four attention weight matrices of a forward pass: of the three attention passes of
  the document over the question, and of the self-boosted attention.
\<close>

definition attention_weights ::
  "reader \<Rightarrow> nat list list \<Rightarrow> tensor3 \<Rightarrow> mask \<Rightarrow> nat list list \<Rightarrow> mask
     \<Rightarrow> error + real list list list \<times> real list list list
               \<times> real list list list \<times> real list list list" where
  "attention_weights m x1 x1_f x1_mask x2 x2_mask =
     bind_err (encode m x1 x1_f x1_mask x2 x2_mask) (\<lambda>e.
     bind_err (history_of_doc_word e) (\<lambda>hist_doc.
     bind_err (history_of_question_word e) (\<lambda>hist_question.
     bind_err (SymBilinearAttnMatch_weights (low_level_matrix_attention_layer (layers m))
                 hist_doc hist_question x2_mask) (\<lambda>low_w.
     bind_err (SymBilinearAttnMatch_weights (high_level_matrix_attention_layer (layers m))
                 hist_doc hist_question x2_mask) (\<lambda>high_w.
     bind_err (SymBilinearAttnMatch_weights (understanding_matrix_attention_layer (layers m))
                 hist_doc hist_question x2_mask) (\<lambda>und_w.
     bind_err (fuse m e x1_mask x2_mask) (\<lambda>f.
     bind_err (SymBilinearAttnMatch_weights (self_boosted_matrix_attention_layer (layers m))
                 (history_of_doc_word2 f) (history_of_doc_word2 f) x1_mask) (\<lambda>self_w.
     Inr (low_w, high_w, und_w, self_w)))))))))"

text \<open>
  Dropout does nothing: the rate of the embedding dropout is not positive or its sample
  leaves the tensor alone, and no encoder behaves differently in training mode.
\<close>

definition dropout_free :: "reader \<Rightarrow> bool" where
  "dropout_free m \<longleftrightarrow>
     (dropout_emb (args m) \<le> 0
        \<or> dropout_sample (layers m) (dropout_emb (args m)) = (\<lambda>x. x))
     \<and> reading_low_level_doc_rnn (layers m) True = reading_low_level_doc_rnn (layers m) False
     \<and> reading_low_level_question_rnn (layers m) True
         = reading_low_level_question_rnn (layers m) False
     \<and> reading_high_level_doc_rnn (layers m) True = reading_high_level_doc_rnn (layers m) False
     \<and> reading_high_level_question_rnn (layers m) True
         = reading_high_level_question_rnn (layers m) False
     \<and> understanding_question_rnn (layers m) True = understanding_question_rnn (layers m) False
     \<and> multi_level_rnn (layers m) True = multi_level_rnn (layers m) False
     \<and> understanding_doc_rnn (layers m) True = understanding_doc_rnn (layers m) False"

subsection \<open>A small reader\<close>

text \<open>
  A configuration with CoVe on, one hidden unit and a vocabulary of three words, and
  learned functions that are easy to follow by hand: the CoVe encoder doubles every
  vector, every encoder gives one fixed vector of \<open>2 * hidden_size\<close> for every token
  it reads, the attention projections and scores are constant zero, and the GRU step
  returns its input.
\<close>

definition tiny_args :: args where
  "tiny_args =
     \<lparr> vocab_size = 3, embedding_dim = 300, num_features = 0, hidden_size = 1,
       doc_layers = 1, question_layers = 1, concat_rnn_layers = False, use_qemb = False,
       use_cove = True, cove_embedding_dim = 300, attention_size = 1,
       dropout_emb = 0, dropout_rnn = 0, dropout_rnn_output = False,
       rnn_padding = False \<rparr>"

definition const_rnn :: "vec \<Rightarrow> rnn" where
  "const_rnn v = (\<lambda>tr x msk. map (map (\<lambda>t. v)) x)"

definition tiny_learned :: learned where
  "tiny_learned =
     \<lparr> embedding_weight = [replicate 300 1, replicate 300 1, replicate 300 2],
       MTLSTM = (\<lambda>x lens. map (map (\<lambda>v. v @ v)) x),
       SeqAttnMatch = (\<lambda>x y y_mask. x),
       reading_low_level_doc_rnn = const_rnn [1, 0],
       reading_low_level_question_rnn = const_rnn [1, 0],
       reading_high_level_doc_rnn = const_rnn [0, 1],
       reading_high_level_question_rnn = const_rnn [0, 1],
       understanding_question_rnn = const_rnn [1, 1],
       low_level_matrix_attention_layer = (\<lambda>v. [0]),
       high_level_matrix_attention_layer = (\<lambda>v. [0]),
       understanding_matrix_attention_layer = (\<lambda>v. [0]),
       multi_level_rnn = const_rnn [2, 1],
       self_boosted_matrix_attention_layer = (\<lambda>v. [0]),
       understanding_doc_rnn = const_rnn [1, 2],
       question_self_attn = (\<lambda>v. 0),
       start_attn = (\<lambda>x y. 0),
       start_gru = (\<lambda>x h. x),
       end_attn = (\<lambda>x y. 0),
       dropout_sample = (\<lambda>p x. x) \<rparr>"

text \<open>The module that the constructor builds from them.\<close>

definition tiny_reader :: reader where
  "tiny_reader =
     \<lparr> args = tiny_args,
       training = True,
       embedding = [replicate 300 0, replicate 300 1, replicate 300 2],
       cove_encoder = Some (MTLSTM tiny_learned),
       qemb_match = None,
       layers = tiny_learned \<rparr>"

text \<open>
  The encodings of the document \<open>[2, 2, 0]\<close> (its last position padding) and the question
  \<open>[2, 2]\<close> by the small reader.
\<close>

definition tiny_encoded :: encoded where
  "tiny_encoded =
     \<lparr> x1_word_emb = [[replicate 300 2, replicate 300 2, replicate 300 0]],
       x2_word_emb = [[replicate 300 2, replicate 300 2]],
       x1_cove_emb = [[replicate 300 2 @ replicate 300 2, replicate 300 2 @ replicate 300 2,
                       replicate 300 0 @ replicate 300 0]],
       x2_cove_emb = [[replicate 300 2 @ replicate 300 2, replicate 300 2 @ replicate 300 2]],
       low_level_doc_hiddens = [[[1, 0], [1, 0], [1, 0]]],
       low_level_question_hiddens = [[[1, 0], [1, 0]]],
       high_level_doc_hiddens = [[[0, 1], [0, 1], [0, 1]]],
       high_level_question_hiddens = [[[0, 1], [0, 1]]],
       understanding_question_hiddens = [[[1, 1], [1, 1]]] \<rparr>"

text \<open>And the tensors of the fusion stage on these encodings.\<close>

definition tiny_fused :: fused where
  "tiny_fused =
     \<lparr> low_level_doc_question_vectors = [[[1, 0], [1, 0], [1, 0]]],
       high_level_doc_question_vectors = [[[0, 1], [0, 1], [0, 1]]],
       understanding_doc_question_vectors = [[[1, 1], [1, 1], [1, 1]]],
       fa_multi_level_doc_hiddens = [[[2, 1], [2, 1], [2, 1]]],
       history_of_doc_word2 =
         cat_tokens [x1_word_emb tiny_encoded, x1_cove_emb tiny_encoded,
               [[[1, 0], [1, 0], [1, 0]]], [[[0, 1], [0, 1], [0, 1]]],
               [[[1, 0], [1, 0], [1, 0]]], [[[0, 1], [0, 1], [0, 1]]],
               [[[1, 1], [1, 1], [1, 1]]], [[[2, 1], [2, 1], [2, 1]]]],
       self_boosted_vectors = [[[2, 1], [2, 1], [2, 1]]],
       understanding_doc_hiddens = [[[1, 2], [1, 2], [1, 2]]] \<rparr>"

text \<open>
  The small reader with the embedding dropout of the default configuration, and a sample
  that drops every entry.
\<close>

definition dropout_reader :: reader where
  "dropout_reader =
     tiny_reader
       \<lparr> args := tiny_args\<lparr>dropout_emb := 4 / 10\<rparr>,
         layers := tiny_learned\<lparr>dropout_sample := (\<lambda>p x. map (map (map (\<lambda>v. 0))) x)\<rparr> \<rparr>"

section \<open>Properties of the configuration\<close>

lemma override_loop_frame:
  "k \<notin> MODEL_OPTIMIZER \<Longrightarrow> map_of (override_loop ne ks old new) k = map_of old k"
  by (induction ks arbitrary: old) (auto simp: update_conv' split: option.splits)

lemma override_loop_keys:
  "map fst (override_loop ne ks old new) = map fst old"
proof (induction ks arbitrary: old)
  case Nil
  then show ?case by simp
next
  case (Cons k ks)
  have "map fst (AList.update k v old) = map fst old" if "map_of old k = Some ov" for v ov
    using that by (auto simp: update_keys dest: map_of_SomeD intro: rev_image_eqI)
  with Cons show ?case by (auto split: option.splits)
qed

text \<open>
  Claim C9. \<open>override_model_args\<close> changes only keys of \<open>MODEL_OPTIMIZER\<close>: the
  returned namespace has the keys of the saved one, in the same order, and every key that
  is not in \<open>MODEL_OPTIMIZER\<close> has the value it had in the saved namespace, whatever
  the new namespace holds for it.
\<close>

theorem override_model_args_frame:
  "k \<notin> MODEL_OPTIMIZER \<Longrightarrow>
     map_of (override_model_args ne old_args new_args) k = map_of old_args k
     \<and> map fst (override_model_args ne old_args new_args) = map fst old_args"
  by (simp add: override_model_args_def override_loop_frame override_loop_keys)

theorem override_model_args_frame_witness:
  "''hidden_size'' \<notin> MODEL_OPTIMIZER
   \<and> map_of (override_model_args (\<noteq>)
        [(''hidden_size'', 128 :: int), (''learning_rate'', 1)]
        [(''hidden_size'', 64), (''learning_rate'', 2)]) ''hidden_size'' = Some 128
   \<and> map fst (override_model_args (\<noteq>)
        [(''hidden_size'', 128 :: int), (''learning_rate'', 1)]
        [(''hidden_size'', 64), (''learning_rate'', 2)]) = [''hidden_size'', ''learning_rate'']"
  using override_model_args_frame [of "''hidden_size''" "(\<noteq>)"
      "[(''hidden_size'', 128 :: int), (''learning_rate'', 1)]"
      "[(''hidden_size'', 64), (''learning_rate'', 2)]"]
  by (simp add: MODEL_OPTIMIZER_def)

text \<open>A key of \<open>MODEL_OPTIMIZER\<close> takes the new value where the two differ.\<close>

lemma override_model_args_overrides:
  "override_model_args (\<noteq>)
     [(''hidden_size'', 128 :: int), (''learning_rate'', 1)]
     [(''hidden_size'', 64), (''learning_rate'', 2)]
   = [(''hidden_size'', 128), (''learning_rate'', 2)]"
  by (simp add: override_model_args_def MODEL_OPTIMIZER_def)

section \<open>Properties of the cosine similarity\<close>

lemma fmul_commute: "fmul a b = fmul b a"
  by (auto simp: fmul_def split: option.splits)

lemma map2_fmul_commute: "map2 fmul as bs = map2 fmul bs as"
proof (induction as arbitrary: bs)
  case Nil
  then show ?case by simp
next
  case (Cons a as)
  then show ?case by (cases bs) (simp_all add: fmul_commute)
qed

lemma cosine_row_commute: "cosine_row xs ys = cosine_row ys xs"
  unfolding cosine_row_def by (subst map2_fmul_commute) simp

lemma forward_commute:
  "CosineSimilarity_forward t u = CosineSimilarity_forward u t"
  "forward_stack ts us = forward_stack us ts"
  by (induction t u and ts us rule: CosineSimilarity_forward_forward_stack.induct)
     (auto simp: cosine_row_commute split: option.splits)

lemma fsum_Some: "list_all (\<lambda>x. x \<noteq> None) xs \<Longrightarrow> fsum xs \<noteq> None"
  unfolding fsum_def by (induction xs) (auto simp: fadd_def split: option.splits)

lemma cosine_row_finite:
  "norm_row xs \<noteq> 0 \<Longrightarrow> norm_row ys \<noteq> 0 \<Longrightarrow> cosine_row xs ys \<noteq> None"
  unfolding cosine_row_def
proof (rule fsum_Some)
  have n: "list_all (\<lambda>x. x \<noteq> None) (normalized zs)" if "norm_row zs \<noteq> 0" for zs
    using that by (simp add: list_all_iff normalized_def fdiv_def)
  have "list_all (\<lambda>x. x \<noteq> None) (map2 fmul as bs)"
    if "list_all (\<lambda>x. x \<noteq> None) as" "list_all (\<lambda>x. x \<noteq> None) bs" for as bs
    using that
  proof (induction as arbitrary: bs)
    case Nil
    then show ?case by simp
  next
    case (Cons a as)
    then show ?case by (cases bs) (auto simp: fmul_def)
  qed
  then show "list_all (\<lambda>x. x \<noteq> None) (map2 fmul (normalized xs) (normalized ys))"
    if "norm_row xs \<noteq> 0" "norm_row ys \<noteq> 0"
    using that n by blast
qed

lemma forward_defined:
  "same_shape t u \<Longrightarrow> nonzero_norms t \<Longrightarrow> nonzero_norms u \<Longrightarrow>
     \<exists>r. CosineSimilarity_forward t u = Some r \<and> finite_out r"
  "same_shapes ts us \<Longrightarrow> list_all nonzero_norms ts \<Longrightarrow> list_all nonzero_norms us \<Longrightarrow>
     \<exists>rs. forward_stack ts us = Some rs \<and> list_all finite_out rs"
  by (induction t u and ts us rule: CosineSimilarity_forward_forward_stack.induct)
     (auto simp: cosine_row_finite)

text \<open>
  Claim C10. \<open>CosineSimilarity.forward\<close> is symmetric: for two tensors of the same
  shape whose vectors along the last dimension all have a norm other than zero, the result
  on \<open>(t1, t2)\<close> is the result on \<open>(t2, t1)\<close>, and it is a tensor of finite numbers.
\<close>

theorem CosineSimilarity_forward_symmetric:
  "same_shape t1 t2 \<Longrightarrow> nonzero_norms t1 \<Longrightarrow> nonzero_norms t2 \<Longrightarrow>
     CosineSimilarity_forward t1 t2 = CosineSimilarity_forward t2 t1
     \<and> (\<exists>r. CosineSimilarity_forward t1 t2 = Some r \<and> finite_out r)"
  using forward_commute(1) [of t1 t2] forward_defined(1) [of t1 t2] by simp

theorem CosineSimilarity_forward_symmetric_witness:
  "same_shape (Stack [Row [3, 4], Row [1, 0]]) (Stack [Row [4, 3], Row [0, 2]])
   \<and> nonzero_norms (Stack [Row [3, 4], Row [1, 0]])
   \<and> nonzero_norms (Stack [Row [4, 3], Row [0, 2]])
   \<and> CosineSimilarity_forward (Stack [Row [3, 4], Row [1, 0]]) (Stack [Row [4, 3], Row [0, 2]])
     = CosineSimilarity_forward (Stack [Row [4, 3], Row [0, 2]]) (Stack [Row [3, 4], Row [1, 0]])
   \<and> (\<exists>r. CosineSimilarity_forward (Stack [Row [3, 4], Row [1, 0]])
             (Stack [Row [4, 3], Row [0, 2]]) = Some r \<and> finite_out r)"
proof -
  let ?A = "Stack [Row [3, 4], Row [1, 0]]" and ?B = "Stack [Row [4, 3], Row [0, 2]]"
  have h: "same_shape ?A ?B" "nonzero_norms ?A" "nonzero_norms ?B"
    by (simp_all add: norm_row_def)
  from CosineSimilarity_forward_symmetric [OF h] h show ?thesis
    by blast
qed

text \<open>With a vector of norm zero the division has no finite result.\<close>

lemma cosine_row_zero_norm: "cosine_row [0, 0] [1, 0] = None"
  by (simp add: cosine_row_def normalized_def norm_row_def fdiv_def fmul_def fsum_def fadd_def)

section \<open>Properties of the layers\<close>

lemma bind_err_Inr [simp]: "bind_err (Inr v) f = f v"
  by (simp add: bind_err_def)

lemma bind_err_Inl [simp]: "bind_err (Inl e) f = Inl e"
  by (simp add: bind_err_def)

lemma bind_err_Inr_iff: "bind_err r f = Inr y \<longleftrightarrow> (\<exists>v. r = Inr v \<and> f v = Inr y)"
  by (cases r) simp_all

lemma map_err_Inr_iff:
  "map_err f xs = Inr ys \<longleftrightarrow> list_all2 (\<lambda>x y. f x = Inr y) xs ys"
proof (induction xs arbitrary: ys)
  case Nil
  then show ?case by auto
next
  case (Cons x xs)
  then show ?case
    by (cases ys) (auto simp: bind_err_Inr_iff)
qed

lemma exps_nonneg: "e \<in> set (exps scores msk) \<Longrightarrow> 0 \<le> e"
  by (auto simp: exps_def dest!: set_zip_leftD intro: less_imp_le)

lemma exps_sum_zero_iff:
  "length scores = length msk \<Longrightarrow> sum_list (exps scores msk) = 0 \<longleftrightarrow> list_all (\<lambda>p. p) msk"
proof (induction scores msk rule: list_induct2)
  case Nil
  then show ?case by (simp add: exps_def)
next
  case (Cons s scores p msk)
  have nn: "0 \<le> sum_list (exps scores msk)"
    by (rule sum_list_nonneg) (rule exps_nonneg)
  have "0 < exp s" by simp
  with Cons nn show ?case
    by (auto simp: exps_def add_nonneg_eq_0_iff add_pos_nonneg dest: less_imp_neq)
qed

lemma masked_softmax_Inr_iff:
  "(\<exists>w. masked_softmax scores msk = Inr w) \<longleftrightarrow> length scores = length msk \<and> list_ex Not msk"
  using exps_sum_zero_iff [of scores msk]
  by (auto simp: masked_softmax_def Let_def list_all_iff list_ex_iff)

lemma masked_softmax_distribution:
  assumes "masked_softmax scores msk = Inr w"
  shows "distribution w msk"
proof -
  let ?z = "sum_list (exps scores msk)"
  from assms have len: "length scores = length msk" and z: "?z \<noteq> 0"
    and w: "w = map (\<lambda>e. e / ?z) (exps scores msk)"
    by (auto simp: masked_softmax_def Let_def split: if_splits)
  have l: "length w = length msk" using len by (simp add: w exps_def)
  have "sum_list w = (\<Sum>e\<leftarrow>exps scores msk. e * inverse ?z)"
    by (simp add: w divide_inverse)
  also have "\<dots> = ?z * inverse ?z" by (simp add: sum_list_mult_const)
  finally have s: "sum_list w = 1" using z by simp
  have "0 \<le> ?z" by (rule sum_list_nonneg) (rule exps_nonneg)
  with z have zp: "0 < ?z" by simp
  have "list_all2 (\<lambda>x p. if p then x = 0 else 0 < x) w msk"
    using len zp by (auto simp: w exps_def list_all2_conv_all_nth)
  with l s show ?thesis by (simp add: distribution_def)
qed

lemma LinearSeqAttn_distribution:
  assumes "LinearSeqAttn score x x_mask = Inr r"
  shows "list_all2 distribution r x_mask"
proof -
  from assms have len: "length r = length x_mask"
    and item: "\<forall>b<length r. masked_softmax (map score (x ! b)) (x_mask ! b) = Inr (r ! b)"
    by (auto simp: LinearSeqAttn_def map_err_Inr_iff list_all2_conv_all_nth split: if_splits)
  then show ?thesis
    by (auto simp: list_all2_conv_all_nth intro: masked_softmax_distribution)
qed

lemma BilinearSeqAttn_distribution:
  assumes "BilinearSeqAttn score x y x_mask = Inr r"
  shows "list_all2 distribution r x_mask"
proof -
  from assms have len: "length r = length x_mask"
    and item: "\<forall>b<length r.
      masked_softmax (map (\<lambda>xi. score xi (y ! b)) (x ! b)) (x_mask ! b) = Inr (r ! b)"
    by (auto simp: BilinearSeqAttn_def map_err_Inr_iff list_all2_conv_all_nth split: if_splits)
  then show ?thesis
    by (auto simp: list_all2_conv_all_nth intro: masked_softmax_distribution)
qed

lemma attn_weights_distribution:
  assumes "attn_weights proj x y y_mask = Inr w"
  shows "list_all (\<lambda>row. distribution row y_mask) w" and "length w = length x"
proof -
  from assms have len: "length w = length x"
    and item: "\<forall>i<length w.
      masked_softmax (map (\<lambda>yj. dot (proj (x ! i)) (proj yj)) y) y_mask = Inr (w ! i)"
    by (auto simp: attn_weights_def map_err_Inr_iff list_all2_conv_all_nth)
  show "length w = length x" by (rule len)
  show "list_all (\<lambda>row. distribution row y_mask) w"
    unfolding list_all_length using item masked_softmax_distribution by blast
qed

lemma SymBilinearAttnMatch_weights_distributions:
  assumes "SymBilinearAttnMatch_weights proj x y y_mask = Inr w"
  shows "attention_distributions w y_mask" and "conforms w x"
proof -
  from assms have len: "length w = length y_mask" "length w = length x"
    and item: "\<forall>b<length w. attn_weights proj (x ! b) (y ! b) (y_mask ! b) = Inr (w ! b)"
    by (auto simp: SymBilinearAttnMatch_weights_def map_err_Inr_iff list_all2_conv_all_nth
        split: if_splits)
  show "attention_distributions w y_mask"
    unfolding attention_distributions_def list_all2_conv_all_nth
    using len item attn_weights_distribution(1) by blast
  show "conforms w x"
    unfolding conforms_def list_all2_conv_all_nth
    using len item attn_weights_distribution(2) by blast
qed

section \<open>Properties of the reader\<close>

lemmas tiny_defs = tiny_reader_def tiny_learned_def tiny_args_def const_rnn_def cat2_def
  conforms_def embed_ids_def

lemma tiny_reader_built: "FusionNetReader tiny_args tiny_learned = Inr tiny_reader"
  by (simp add: FusionNetReader_def Embedding_def tiny_args_def tiny_learned_def tiny_reader_def)

lemma tiny_encode:
  "encode (tiny_reader\<lparr>training := tr\<rparr>) [[2, 2, 0]] [[[], [], []]] [[False, False, True]]
     [[2, 2]] [[False, False]] = Inr tiny_encoded"
  by (simp add: encode_def Embedding_forward_def tiny_defs lengths_def tiny_encoded_def)

lemma dropout_encode:
  "encode (dropout_reader\<lparr>training := tr\<rparr>) [[2, 2, 0]] [[[], [], []]]
     [[False, False, True]] [[2, 2]] [[False, False]] = Inr tiny_encoded"
  by (simp add: encode_def Embedding_forward_def dropout_reader_def tiny_defs lengths_def
      tiny_encoded_def F_dropout_def)

lemma encode_without_cove:
  "cove_encoder m = None \<Longrightarrow>
     encode m x1 x1_f x1_mask x2 x2_mask = Inl IndexError
     \<or> encode m x1 x1_f x1_mask x2 x2_mask = Inl AttributeError"
proof -
  assume c: "cove_encoder m = None"
  have ix: "(\<exists>v. Embedding_forward w x = Inr v) \<or> Embedding_forward w x = Inl IndexError" for w x
  proof -
    have inner: "(\<exists>v. map_err (\<lambda>i. if i < length w then Inr (w ! i) else Inl IndexError) ids = Inr v)
      \<or> map_err (\<lambda>i. if i < length w then Inr (w ! i) else Inl IndexError) ids = Inl IndexError" for ids
      by (induction ids) auto
    show ?thesis
      unfolding Embedding_forward_def
    proof (induction x)
      case Nil
      then show ?case by simp
    next
      case (Cons ids x)
      with inner [of ids] show ?case by auto
    qed
  qed
  from ix [of "embedding m" x1] ix [of "embedding m" x2] c show ?thesis
    by (auto simp: encode_def embed_ids_def)
qed

text \<open>
  Claim C3. With CoVe switched off in the configuration the constructor sets no
  \<open>cove_encoder\<close>, and \<open>forward\<close> reads it all the same: the pass ends in an error, in
  training and in inference mode, \<open>AttributeError\<close> unless a token id was out of range
  before. It returns no scores.
\<close>

theorem forward_without_cove:
  assumes "\<not> use_cove a" and "FusionNetReader a w = Inr m"
  shows "forward (m\<lparr>training := tr\<rparr>) x1 x1_f x1_mask x2 x2_mask = Inl IndexError
         \<or> forward (m\<lparr>training := tr\<rparr>) x1 x1_f x1_mask x2 x2_mask = Inl AttributeError"
proof -
  from assms have "cove_encoder (m\<lparr>training := tr\<rparr>) = None"
    by (auto simp: FusionNetReader_def bind_err_Inr_iff)
  from encode_without_cove [OF this, of x1 x1_f x1_mask x2 x2_mask] show ?thesis
    by (auto simp: forward_def forward_scores_def)
qed

theorem forward_without_cove_witness:
  "\<not> use_cove (tiny_args\<lparr>use_cove := False\<rparr>)
   \<and> FusionNetReader (tiny_args\<lparr>use_cove := False\<rparr>) tiny_learned
       = Inr (tiny_reader\<lparr>args := tiny_args\<lparr>use_cove := False\<rparr>, cove_encoder := None\<rparr>)
   \<and> forward (tiny_reader\<lparr>args := tiny_args\<lparr>use_cove := False\<rparr>, cove_encoder := None, training := False\<rparr>)
        [[2, 2, 0]] [[[], [], []]] [[False, False, True]] [[2, 2]] [[False, False]]
       = Inl AttributeError"
proof -
  have b: "FusionNetReader (tiny_args\<lparr>use_cove := False\<rparr>) tiny_learned
       = Inr (tiny_reader\<lparr>args := tiny_args\<lparr>use_cove := False\<rparr>, cove_encoder := None\<rparr>)"
    by (simp add: FusionNetReader_def Embedding_def tiny_args_def tiny_learned_def tiny_reader_def)
  have n: "\<not> use_cove (tiny_args\<lparr>use_cove := False\<rparr>)" by simp
  have i: "forward (tiny_reader\<lparr>args := tiny_args\<lparr>use_cove := False\<rparr>, cove_encoder := None, training := False\<rparr>)
        [[2, 2, 0]] [[[], [], []]] [[False, False, True]] [[2, 2]] [[False, False]] \<noteq> Inl IndexError"
    by (simp add: forward_def forward_scores_def encode_def Embedding_forward_def tiny_defs)
  from forward_without_cove [OF n b, of False "[[2, 2, 0]]" "[[[], [], []]]" "[[False, False, True]]" "[[2, 2]]" "[[False, False]]"] i b n
  show ?thesis by simp
qed

text \<open>
  Claim C1. The history of the question tokens that \<open>forward\<close> builds holds the low-level
  hidden states twice and the high-level hidden states not at all: on the small reader it
  differs from the concatenation of word embedding, CoVe embedding, low-level and
  high-level hidden states.
\<close>

theorem question_history_repeats_low_level:
  "FusionNetReader tiny_args tiny_learned = Inr tiny_reader
   \<and> (\<exists>e. encode tiny_reader [[2, 2, 0]] [[[], [], []]] [[False, False, True]]
            [[2, 2]] [[False, False]] = Inr e
          \<and> low_level_question_hiddens e = [[[1, 0], [1, 0]]]
          \<and> high_level_question_hiddens e = [[[0, 1], [0, 1]]]
          \<and> history_of_question_word e
              = cat2 [x2_word_emb e, x2_cove_emb e, low_level_question_hiddens e,
                      low_level_question_hiddens e]
          \<and> history_of_question_word e
              \<noteq> cat2 [x2_word_emb e, x2_cove_emb e, low_level_question_hiddens e,
                       high_level_question_hiddens e])"
proof -
  have "encode tiny_reader [[2, 2, 0]] [[[], [], []]] [[False, False, True]]
            [[2, 2]] [[False, False]] = Inr tiny_encoded"
    using tiny_encode [of True] by (simp add: tiny_reader_def)
  moreover have "history_of_question_word tiny_encoded
              \<noteq> cat2 [x2_word_emb tiny_encoded, x2_cove_emb tiny_encoded, low_level_question_hiddens tiny_encoded,
                       high_level_question_hiddens tiny_encoded]"
    by (simp add: history_of_question_word_def tiny_encoded_def cat2_def conforms_def)
  ultimately show ?thesis
    by (simp add: tiny_reader_built history_of_question_word_def tiny_encoded_def)
qed

lemmas shape_defs = forward_shape_def Embedding_shape_def MTLSTM_shape_def
  StackedBRNN_shape_def SymBilinearAttnMatch_shape_def SeqAttnMatch_shape_def
  LinearSeqAttn_shape_def weighted_avg_shape_def BilinearSeqAttn_shape_def GRU_shape_def
  unsqueeze_def squeeze0_def doc_input_size_def question_input_size_def
  history_of_word_size_def history_of_doc_word_size_def doc_hidden_size_def
  question_hidden_size_def

text \<open>
  Where the sizes agree: CoVe on with 300-dimensional embeddings, and the encoder layers
  not concatenated or one layer each.
\<close>

lemma forward_shape_ok:
  "use_cove a \<Longrightarrow> embedding_dim a = 300 \<Longrightarrow> cove_embedding_dim a = 300 \<Longrightarrow>
   \<not> concat_rnn_layers a \<or> doc_layers a = 1 \<and> question_layers a = 1 \<Longrightarrow>
   forward_shape a [b, ld] [b, ld, num_features a] [b, ld] [b, lq] [b, lq] = Inr ([b, ld], [b, ld])"
  by (auto simp add: shape_defs)

text \<open>
  Claim C4. With the default configuration (layers concatenated, three document layers)
  the decoder is built for document vectors of \<open>2 * 128 * 3 = 768\<close> entries, and the last
  document encoder, of one layer, gives \<open>2 * 128 = 256\<close>: \<open>forward\<close> on a batch of two
  documents of five and two questions of three tokens ends in a size error.
\<close>

theorem forward_shape_default_args:
  "forward_shape default_args [2, 5] [2, 5, 4] [2, 5] [2, 3] [2, 3] = Inl SizeMismatch
   \<and> doc_hidden_size default_args = 768
   \<and> StackedBRNN_shape (hidden_size default_args * 2 * 2) (hidden_size default_args) 1 False
        [2, 5, 512] [2, 5] = Inr [2, 5, 256]
   \<and> BilinearSeqAttn_shape (doc_hidden_size default_args) (question_hidden_size default_args)
        [2, 5, 256] [2, 256] [2, 5] = Inl SizeMismatch"
  by (simp add: shape_defs default_args_def)

subsection \<open>The small reader, step by step\<close>

lemmas attn_defs = SymBilinearAttnMatch_def SymBilinearAttnMatch_weights_def attn_weights_def
  masked_softmax_def exps_def dot_def weighted_sum_def

lemma fuse_small:
  "layers m = tiny_learned\<lparr>dropout_sample := d\<rparr> \<Longrightarrow>
     fuse m tiny_encoded [[False, False, True]] [[False, False]] = Inr tiny_fused"
  by (simp add: fuse_def history_of_doc_word_def history_of_question_word_def attn_defs
      tiny_learned_def const_rnn_def cat2_def conforms_def tiny_encoded_def tiny_fused_def Let_def)

lemma pool_small:
  "layers m = tiny_learned\<lparr>dropout_sample := d\<rparr> \<Longrightarrow>
     pool_question m tiny_encoded [[False, False]] = Inr [[1, 1]]"
  by (simp add: pool_question_def LinearSeqAttn_def weighted_avg_def masked_softmax_def exps_def
      weighted_sum_def tiny_learned_def tiny_encoded_def)

lemma decode_small:
  "layers m = tiny_learned\<lparr>dropout_sample := d\<rparr> \<Longrightarrow>
     decode m [[[1, 2], [1, 2], [1, 2]]] [[1, 1]] [[False, False, True]]
       = Inr ([[1 / 2, 1 / 2, 0]], [[1 / 2, 1 / 2, 0]])"
  by (simp add: decode_def BilinearSeqAttn_def weighted_avg_def masked_softmax_def exps_def
      weighted_sum_def gru_step_def tiny_learned_def Let_def)

lemma tiny_layers: "layers (tiny_reader\<lparr>training := tr\<rparr>) = tiny_learned\<lparr>dropout_sample := (\<lambda>p x. x)\<rparr>"
  by (simp add: tiny_reader_def tiny_learned_def)

lemma dropout_layers:
  "layers (dropout_reader\<lparr>training := tr\<rparr>)
     = tiny_learned\<lparr>dropout_sample := (\<lambda>p x. map (map (map (\<lambda>v. 0))) x)\<rparr>"
  by (simp add: dropout_reader_def)

lemma tiny_fuse:
  "fuse (tiny_reader\<lparr>training := tr\<rparr>) tiny_encoded [[False, False, True]] [[False, False]]
     = Inr tiny_fused"
  by (rule fuse_small) (rule tiny_layers)

lemma tiny_forward_scores:
  "forward_scores (tiny_reader\<lparr>training := tr\<rparr>) [[2, 2, 0]] [[[], [], []]]
     [[False, False, True]] [[2, 2]] [[False, False]]
     = Inr ([[1 / 2, 1 / 2, 0]], [[1 / 2, 1 / 2, 0]])"
  by (simp add: forward_scores_def tiny_encode fuse_small [OF tiny_layers]
      pool_small [OF tiny_layers])
     (simp add: tiny_fused_def decode_small [OF tiny_layers])

lemma dropout_forward_scores:
  "forward_scores (dropout_reader\<lparr>training := tr\<rparr>) [[2, 2, 0]] [[[], [], []]]
     [[False, False, True]] [[2, 2]] [[False, False]]
     = Inr ([[1 / 2, 1 / 2, 0]], [[1 / 2, 1 / 2, 0]])"
  by (simp add: forward_scores_def dropout_encode fuse_small [OF dropout_layers]
      pool_small [OF dropout_layers])
     (simp add: tiny_fused_def decode_small [OF dropout_layers])

lemma fuse_layers:
  assumes "fuse m e x1_mask x2_mask = Inr f"
  shows "\<exists>hist_doc hist_question.
           history_of_doc_word e = Inr hist_doc
           \<and> history_of_question_word e = Inr hist_question
           \<and> SymBilinearAttnMatch (low_level_matrix_attention_layer (layers m))
               hist_doc hist_question x2_mask (low_level_question_hiddens e)
               = Inr (low_level_doc_question_vectors f)
           \<and> SymBilinearAttnMatch (high_level_matrix_attention_layer (layers m))
               hist_doc hist_question x2_mask (high_level_question_hiddens e)
               = Inr (high_level_doc_question_vectors f)
           \<and> SymBilinearAttnMatch (understanding_matrix_attention_layer (layers m))
               hist_doc hist_question x2_mask (understanding_question_hiddens e)
               = Inr (understanding_doc_question_vectors f)"
    and "SymBilinearAttnMatch (self_boosted_matrix_attention_layer (layers m))
           (history_of_doc_word2 f) (history_of_doc_word2 f) x1_mask
           (fa_multi_level_doc_hiddens f) = Inr (self_boosted_vectors f)"
  using assms by (auto simp: fuse_def bind_err_Inr_iff Let_def)

lemma SymBilinearAttnMatch_has_weights:
  "SymBilinearAttnMatch proj x y y_mask v = Inr r \<Longrightarrow>
     \<exists>w. SymBilinearAttnMatch_weights proj x y y_mask = Inr w"
  by (auto simp: SymBilinearAttnMatch_def bind_err_Inr_iff)

lemma attention_weights_of_fuse:
  assumes "encode m x1 x1_f x1_mask x2 x2_mask = Inr e" and "fuse m e x1_mask x2_mask = Inr f"
  shows "\<exists>hist_doc low_w high_w und_w self_w.
           history_of_doc_word e = Inr hist_doc
           \<and> attention_weights m x1 x1_f x1_mask x2 x2_mask = Inr (low_w, high_w, und_w, self_w)
           \<and> attention_distributions low_w x2_mask \<and> conforms low_w hist_doc
           \<and> attention_distributions high_w x2_mask \<and> conforms high_w hist_doc
           \<and> attention_distributions und_w x2_mask \<and> conforms und_w hist_doc
           \<and> attention_distributions self_w x1_mask"
proof -
  from fuse_layers [OF assms(2)] obtain hist_doc hist_question low_w high_w und_w self_w where
    h: "history_of_doc_word e = Inr hist_doc" "history_of_question_word e = Inr hist_question"
    and w: "SymBilinearAttnMatch_weights (low_level_matrix_attention_layer (layers m))
          hist_doc hist_question x2_mask = Inr low_w"
       "SymBilinearAttnMatch_weights (high_level_matrix_attention_layer (layers m))
          hist_doc hist_question x2_mask = Inr high_w"
       "SymBilinearAttnMatch_weights (understanding_matrix_attention_layer (layers m))
          hist_doc hist_question x2_mask = Inr und_w"
       "SymBilinearAttnMatch_weights (self_boosted_matrix_attention_layer (layers m))
          (history_of_doc_word2 f) (history_of_doc_word2 f) x1_mask = Inr self_w"
    by (meson SymBilinearAttnMatch_has_weights)
  have "attention_weights m x1 x1_f x1_mask x2 x2_mask = Inr (low_w, high_w, und_w, self_w)"
    by (simp add: attention_weights_def assms h w)
  with h w show ?thesis
    by (blast intro: SymBilinearAttnMatch_weights_distributions)
qed

lemma forward_scores_stages:
  assumes "forward_scores m x1 x1_f x1_mask x2 x2_mask = Inr r"
  obtains e f question_hidden where
    "encode m x1 x1_f x1_mask x2 x2_mask = Inr e" "fuse m e x1_mask x2_mask = Inr f"
    "pool_question m e x2_mask = Inr question_hidden"
    "decode m (understanding_doc_hiddens f) question_hidden x1_mask = Inr r"
  using assms by (auto simp: forward_scores_def bind_err_Inr_iff)

lemma decode_stages:
  assumes "decode m doc_hiddens question_hidden x1_mask = Inr (start_scores, end_scores)"
  shows "BilinearSeqAttn (start_attn (layers m)) doc_hiddens question_hidden x1_mask
           = Inr start_scores"
    and "BilinearSeqAttn (end_attn (layers m)) doc_hiddens
           (gru_step m (weighted_avg doc_hiddens start_scores) question_hidden) x1_mask
           = Inr end_scores"
  using assms by (auto simp: decode_def bind_err_Inr_iff Let_def)

text \<open>
  Claim C5. The decoder runs in two stages. In every forward pass that returns, the start
  scores are the masked softmax of the bilinear score of the fused document hidden states
  with the pooled question vector; the memory is the hidden state after the single GRU
  step whose input is the average of the fused document hidden states weighted by the
  start scores and whose initial state is the pooled question vector; and the end scores
  are the softmax, masked by the document padding, of the bilinear score of the fused
  document hidden states with that memory.
\<close>

theorem decoder_two_stages:
  assumes "forward_scores m x1 x1_f x1_mask x2 x2_mask = Inr (start_scores, end_scores)"
  shows "\<exists>e f question_hidden memory_hidden.
           encode m x1 x1_f x1_mask x2 x2_mask = Inr e
           \<and> fuse m e x1_mask x2_mask = Inr f
           \<and> pool_question m e x2_mask = Inr question_hidden
           \<and> BilinearSeqAttn (start_attn (layers m)) (understanding_doc_hiddens f)
                question_hidden x1_mask = Inr start_scores
           \<and> memory_hidden
                = map2 (start_gru (layers m))
                    (weighted_avg (understanding_doc_hiddens f) start_scores) question_hidden
           \<and> BilinearSeqAttn (end_attn (layers m)) (understanding_doc_hiddens f)
                memory_hidden x1_mask = Inr end_scores
           \<and> list_all2 distribution end_scores x1_mask"
proof -
  from assms obtain e f question_hidden where
    s: "encode m x1 x1_f x1_mask x2 x2_mask = Inr e" "fuse m e x1_mask x2_mask = Inr f"
      "pool_question m e x2_mask = Inr question_hidden"
    and d: "decode m (understanding_doc_hiddens f) question_hidden x1_mask
             = Inr (start_scores, end_scores)"
    by (rule forward_scores_stages)
  note dd = decode_stages [OF d]
  from dd(2) have "list_all2 distribution end_scores x1_mask"
    by (rule BilinearSeqAttn_distribution)
  with s dd show ?thesis
    unfolding gru_step_def by blast
qed

theorem decoder_two_stages_witness:
  "forward_scores tiny_reader [[2, 2, 0]] [[[], [], []]] [[False, False, True]] [[2, 2]]
     [[False, False]] = Inr ([[1 / 2, 1 / 2, 0]], [[1 / 2, 1 / 2, 0]])
   \<and> (\<exists>f question_hidden memory_hidden.
         fuse tiny_reader tiny_encoded [[False, False, True]] [[False, False]] = Inr f
         \<and> pool_question tiny_reader tiny_encoded [[False, False]] = Inr question_hidden
         \<and> memory_hidden
              = map2 (start_gru (layers tiny_reader))
                  (weighted_avg (understanding_doc_hiddens f) [[1 / 2, 1 / 2, 0]]) question_hidden
         \<and> BilinearSeqAttn (end_attn (layers tiny_reader)) (understanding_doc_hiddens f)
              memory_hidden [[False, False, True]] = Inr [[1 / 2, 1 / 2, 0]])"
proof -
  have t: "tiny_reader\<lparr>training := True\<rparr> = tiny_reader" by (simp add: tiny_reader_def)
  have h: "forward_scores tiny_reader [[2, 2, 0]] [[[], [], []]] [[False, False, True]] [[2, 2]]
     [[False, False]] = Inr ([[1 / 2, 1 / 2, 0]], [[1 / 2, 1 / 2, 0]])"
    using tiny_forward_scores [of True] by (simp only: t)
  have e: "encode tiny_reader [[2, 2, 0]] [[[], [], []]] [[False, False, True]] [[2, 2]]
     [[False, False]] = Inr tiny_encoded"
    using tiny_encode [of True] by (simp only: t)
  from decoder_two_stages [OF h] e h show ?thesis by auto
qed

text \<open>The end scores follow the start scores: two start layers, two end distributions.\<close>

lemma end_scores_follow_start_scores:
  "decode (m\<lparr>layers := (layers m)\<lparr>start_attn := (\<lambda>x y. 0), start_gru := (\<lambda>x h. x),
                      end_attn := (\<lambda>x y. ln (hd x + hd y))\<rparr>\<rparr>)
     [[[1], [3]]] [[1]] [[False, False]] = Inr ([[1 / 2, 1 / 2]], [[3 / 8, 5 / 8]])"
  "decode (m\<lparr>layers := (layers m)\<lparr>start_attn := (\<lambda>x y. ln (hd x)), start_gru := (\<lambda>x h. x),
                      end_attn := (\<lambda>x y. ln (hd x + hd y))\<rparr>\<rparr>)
     [[[1], [3]]] [[1]] [[False, False]] = Inr ([[1 / 4, 3 / 4]], [[7 / 18, 11 / 18]])"
  by (simp_all add: decode_def BilinearSeqAttn_def weighted_avg_def masked_softmax_def exps_def
      weighted_sum_def gru_step_def Let_def)


lemma encode_mode:
  assumes "dropout_free m"
  shows "encode (m\<lparr>training := True\<rparr>) x1 x1_f x1_mask x2 x2_mask
         = encode (m\<lparr>training := False\<rparr>) x1 x1_f x1_mask x2 x2_mask"
proof -
  have d: "F_dropout (layers m) x (dropout_emb (args m)) True = x" if "0 < dropout_emb (args m)" for x
    using assms that by (auto simp: dropout_free_def F_dropout_def)
  have n: "F_dropout (layers m) x p False = x" for x p
    by (simp add: F_dropout_def)
  from assms show ?thesis
    by (simp add: encode_def embed_ids_def dropout_free_def d n Let_def cong: if_cong)
qed

lemma fuse_mode:
  assumes "dropout_free m"
  shows "fuse (m\<lparr>training := True\<rparr>) e x1_mask x2_mask
         = fuse (m\<lparr>training := False\<rparr>) e x1_mask x2_mask"
  using assms by (simp add: fuse_def dropout_free_def)

lemma pool_question_mode:
  "pool_question (m\<lparr>training := tr\<rparr>) e x2_mask = pool_question m e x2_mask"
  by (simp add: pool_question_def)

lemma decode_mode:
  "decode (m\<lparr>training := tr\<rparr>) h q x1_mask = decode m h q x1_mask"
  by (simp add: decode_def gru_step_def)

text \<open>
  Claim C6. The mode changes the last conversion only. In inference mode \<open>forward\<close>
  returns the two distributions as they are, in training mode \<open>log(p + 1e-8)\<close> of every
  entry of both, whatever the dropout; and when dropout does nothing, the encodings, the
  attention weights and the two distributions before the conversion are the same in
  training and in inference mode.
\<close>

theorem training_mode_converts_scores_only:
  "forward (m\<lparr>training := False\<rparr>) x1 x1_f x1_mask x2 x2_mask
     = forward_scores (m\<lparr>training := False\<rparr>) x1 x1_f x1_mask x2 x2_mask
   \<and> forward (m\<lparr>training := True\<rparr>) x1 x1_f x1_mask x2 x2_mask
     = bind_err (forward_scores (m\<lparr>training := True\<rparr>) x1 x1_f x1_mask x2 x2_mask)
         (\<lambda>(start_scores, end_scores). Inr (log_scores start_scores, log_scores end_scores))
   \<and> (dropout_free m \<longrightarrow>
        encode (m\<lparr>training := True\<rparr>) x1 x1_f x1_mask x2 x2_mask
          = encode (m\<lparr>training := False\<rparr>) x1 x1_f x1_mask x2 x2_mask
        \<and> attention_weights (m\<lparr>training := True\<rparr>) x1 x1_f x1_mask x2 x2_mask
          = attention_weights (m\<lparr>training := False\<rparr>) x1 x1_f x1_mask x2 x2_mask
        \<and> forward_scores (m\<lparr>training := True\<rparr>) x1 x1_f x1_mask x2 x2_mask
          = forward_scores (m\<lparr>training := False\<rparr>) x1 x1_f x1_mask x2 x2_mask
        \<and> forward (m\<lparr>training := True\<rparr>) x1 x1_f x1_mask x2 x2_mask
          = bind_err (forward_scores (m\<lparr>training := False\<rparr>) x1 x1_f x1_mask x2 x2_mask)
              (\<lambda>(start_scores, end_scores).
                 Inr (log_scores start_scores, log_scores end_scores)))"
proof -
  have i: "forward (m\<lparr>training := False\<rparr>) x1 x1_f x1_mask x2 x2_mask
           = forward_scores (m\<lparr>training := False\<rparr>) x1 x1_f x1_mask x2 x2_mask"
    by (cases "forward_scores (m\<lparr>training := False\<rparr>) x1 x1_f x1_mask x2 x2_mask")
       (auto simp: forward_def)
  have t: "forward (m\<lparr>training := True\<rparr>) x1 x1_f x1_mask x2 x2_mask
           = bind_err (forward_scores (m\<lparr>training := True\<rparr>) x1 x1_f x1_mask x2 x2_mask)
               (\<lambda>(start_scores, end_scores).
                  Inr (log_scores start_scores, log_scores end_scores))"
    by (simp add: forward_def)
  have "encode (m\<lparr>training := True\<rparr>) x1 x1_f x1_mask x2 x2_mask
          = encode (m\<lparr>training := False\<rparr>) x1 x1_f x1_mask x2 x2_mask
        \<and> attention_weights (m\<lparr>training := True\<rparr>) x1 x1_f x1_mask x2 x2_mask
          = attention_weights (m\<lparr>training := False\<rparr>) x1 x1_f x1_mask x2 x2_mask
        \<and> forward_scores (m\<lparr>training := True\<rparr>) x1 x1_f x1_mask x2 x2_mask
          = forward_scores (m\<lparr>training := False\<rparr>) x1 x1_f x1_mask x2 x2_mask"
    if d: "dropout_free m"
  proof -
    note e = encode_mode [OF d] and f = fuse_mode [OF d]
    have "forward_scores (m\<lparr>training := True\<rparr>) x1 x1_f x1_mask x2 x2_mask
           = forward_scores (m\<lparr>training := False\<rparr>) x1 x1_f x1_mask x2 x2_mask"
      by (simp add: forward_scores_def e f pool_question_mode decode_mode)
    moreover have "attention_weights (m\<lparr>training := True\<rparr>) x1 x1_f x1_mask x2 x2_mask
           = attention_weights (m\<lparr>training := False\<rparr>) x1 x1_f x1_mask x2 x2_mask"
      by (simp add: attention_weights_def e f)
    ultimately show ?thesis using e by simp
  qed
  with i t show ?thesis by simp
qed

lemma tiny_dropout_free: "dropout_free tiny_reader"
  by (simp add: dropout_free_def tiny_reader_def tiny_learned_def tiny_args_def const_rnn_def)

text \<open>
  The witness: the small reader, where dropout does nothing, and the small reader with
  the default embedding dropout and a sample that drops every entry; the conversion is
  the same in both.
\<close>

theorem training_mode_converts_scores_only_witness:
  "dropout_free tiny_reader
   \<and> forward (tiny_reader\<lparr>training := False\<rparr>) [[2, 2, 0]] [[[], [], []]]
       [[False, False, True]] [[2, 2]] [[False, False]]
     = Inr ([[1 / 2, 1 / 2, 0]], [[1 / 2, 1 / 2, 0]])
   \<and> forward (tiny_reader\<lparr>training := True\<rparr>) [[2, 2, 0]] [[[], [], []]]
       [[False, False, True]] [[2, 2]] [[False, False]]
     = Inr ([[ln (1 / 2 + 1 / 10 ^ 8), ln (1 / 2 + 1 / 10 ^ 8), ln (1 / 10 ^ 8)]],
            [[ln (1 / 2 + 1 / 10 ^ 8), ln (1 / 2 + 1 / 10 ^ 8), ln (1 / 10 ^ 8)]])
   \<and> 0 < dropout_emb (args dropout_reader)
   \<and> forward (dropout_reader\<lparr>training := False\<rparr>) [[2, 2, 0]] [[[], [], []]]
       [[False, False, True]] [[2, 2]] [[False, False]]
     = Inr ([[1 / 2, 1 / 2, 0]], [[1 / 2, 1 / 2, 0]])
   \<and> forward (dropout_reader\<lparr>training := True\<rparr>) [[2, 2, 0]] [[[], [], []]]
       [[False, False, True]] [[2, 2]] [[False, False]]
     = Inr ([[ln (1 / 2 + 1 / 10 ^ 8), ln (1 / 2 + 1 / 10 ^ 8), ln (1 / 10 ^ 8)]],
            [[ln (1 / 2 + 1 / 10 ^ 8), ln (1 / 2 + 1 / 10 ^ 8), ln (1 / 10 ^ 8)]])"
  using training_mode_converts_scores_only [of tiny_reader
      "[[2, 2, 0]]" "[[[], [], []]]" "[[False, False, True]]" "[[2, 2]]" "[[False, False]]"]
    training_mode_converts_scores_only [of dropout_reader
      "[[2, 2, 0]]" "[[[], [], []]]" "[[False, False, True]]" "[[2, 2]]" "[[False, False]]"]
    tiny_dropout_free tiny_forward_scores dropout_forward_scores
  by (simp add: log_scores_def dropout_reader_def)

text \<open>
  Claim C7. The document padding is masked in the decoder and in the self-boosted
  attention, not in the three attention passes over the question. In every forward pass
  that returns, the start and the end scores are zero at every padding position of the
  document (and positive elsewhere, of sum one); the three attention passes have a row of
  weights for every document token, padding or not, each a distribution over the question
  positions that are not padding; and their results do not change when the document mask
  does. The weights of the self-boosted attention are distributions under the document
  mask.
\<close>

theorem document_padding_masked_in_decoder_only:
  assumes "forward_scores m x1 x1_f x1_mask x2 x2_mask = Inr (start_scores, end_scores)"
  shows "list_all2 distribution start_scores x1_mask
         \<and> list_all2 distribution end_scores x1_mask
         \<and> (\<exists>e f hist_doc low_w high_w und_w self_w.
               encode m x1 x1_f x1_mask x2 x2_mask = Inr e
               \<and> fuse m e x1_mask x2_mask = Inr f
               \<and> history_of_doc_word e = Inr hist_doc
               \<and> attention_weights m x1 x1_f x1_mask x2 x2_mask
                   = Inr (low_w, high_w, und_w, self_w)
               \<and> attention_distributions low_w x2_mask
               \<and> conforms low_w hist_doc
               \<and> attention_distributions high_w x2_mask
               \<and> conforms high_w hist_doc
               \<and> attention_distributions und_w x2_mask
               \<and> conforms und_w hist_doc
               \<and> attention_distributions self_w x1_mask
               \<and> (\<forall>x1_mask' f'. fuse m e x1_mask' x2_mask = Inr f' \<longrightarrow>
                     low_level_doc_question_vectors f' = low_level_doc_question_vectors f
                     \<and> high_level_doc_question_vectors f' = high_level_doc_question_vectors f
                     \<and> understanding_doc_question_vectors f'
                         = understanding_doc_question_vectors f))"
proof -
  from assms obtain e f question_hidden where
    s: "encode m x1 x1_f x1_mask x2 x2_mask = Inr e" "fuse m e x1_mask x2_mask = Inr f"
    and d: "decode m (understanding_doc_hiddens f) question_hidden x1_mask
             = Inr (start_scores, end_scores)"
    by (rule forward_scores_stages)
  note dd = decode_stages [OF d]
  have st: "list_all2 distribution start_scores x1_mask"
    using dd(1) by (rule BilinearSeqAttn_distribution)
  have en: "list_all2 distribution end_scores x1_mask"
    using dd(2) by (rule BilinearSeqAttn_distribution)
  have indep: "low_level_doc_question_vectors f' = low_level_doc_question_vectors f
         \<and> high_level_doc_question_vectors f' = high_level_doc_question_vectors f
         \<and> understanding_doc_question_vectors f' = understanding_doc_question_vectors f"
    if "fuse m e x1_mask' x2_mask = Inr f'" for x1_mask' f'
    using fuse_layers(1) [OF that] fuse_layers(1) [OF s(2)] by auto
  from attention_weights_of_fuse [OF s] st en s indep show ?thesis
    by blast
qed

theorem document_padding_masked_in_decoder_only_witness:
  "forward_scores tiny_reader [[2, 2, 0]] [[[], [], []]] [[False, False, True]] [[2, 2]]
     [[False, False]] = Inr ([[1 / 2, 1 / 2, 0]], [[1 / 2, 1 / 2, 0]])
   \<and> fuse tiny_reader tiny_encoded [[False, False, True]] [[False, False]] = Inr tiny_fused
   \<and> [[False, False, True]] ! 0 ! 2
   \<and> low_level_doc_question_vectors tiny_fused ! 0 ! 2 = [1, 0]
   \<and> high_level_doc_question_vectors tiny_fused ! 0 ! 2 = [0, 1]
   \<and> understanding_doc_question_vectors tiny_fused ! 0 ! 2 = [1, 1]
   \<and> list_all2 distribution [[1 / 2, 1 / 2, 0]] [[False, False, True]]"
proof -
  have t: "tiny_reader\<lparr>training := True\<rparr> = tiny_reader" by (simp add: tiny_reader_def)
  have h: "forward_scores tiny_reader [[2, 2, 0]] [[[], [], []]] [[False, False, True]] [[2, 2]]
     [[False, False]] = Inr ([[1 / 2, 1 / 2, 0]], [[1 / 2, 1 / 2, 0]])"
    using tiny_forward_scores [of True] by (simp only: t)
  have f: "fuse tiny_reader tiny_encoded [[False, False, True]] [[False, False]] = Inr tiny_fused"
    using tiny_fuse [of True] by (simp only: t)
  from document_padding_masked_in_decoder_only [OF h] h f show ?thesis
    by (simp add: tiny_fused_def)
qed

subsection \<open>Shapes through the pass\<close>

lemma map_err_total:
  "(\<And>x. x \<in> set xs \<Longrightarrow> \<exists>y. f x = Inr y) \<Longrightarrow> \<exists>ys. map_err f xs = Inr ys"
proof (induction xs)
  case Nil
  then show ?case by simp
next
  case (Cons x xs)
  then obtain y ys where "f x = Inr y" "map_err f xs = Inr ys"
    by (meson list.set_intros)
  then show ?case by simp
qed

lemma map_err_Inl:
  "map_err f xs = Inl e \<Longrightarrow> \<exists>x\<in>set xs. f x = Inl e"
proof (induction xs)
  case Nil
  then show ?case by simp
next
  case (Cons x xs)
  then show ?case
    by (cases "f x"; cases "map_err f xs") auto
qed

lemma bind_err_not:
  "r \<noteq> Inl e \<Longrightarrow> (\<And>v. r = Inr v \<Longrightarrow> f v \<noteq> Inl e) \<Longrightarrow> bind_err r f \<noteq> Inl e"
  by (cases r) auto

lemma conforms_refl: "conforms t t"
  by (simp add: conforms_def list_all2_refl)

lemma conforms_trans: "conforms t u \<Longrightarrow> conforms u v \<Longrightarrow> conforms t v"
  unfolding conforms_def by (auto simp: list_all2_conv_all_nth)

lemma conforms_sym: "conforms t u \<Longrightarrow> conforms u t"
  unfolding conforms_def by (auto simp: list_all2_conv_all_nth)

lemma conforms_length: "conforms t u \<Longrightarrow> length t = length u"
  unfolding conforms_def by (rule list_all2_lengthD)

lemma conforms_append:
  "conforms a msk \<Longrightarrow> conforms b msk \<Longrightarrow> conforms (map2 (map2 (@)) a b) msk"
  unfolding conforms_def by (auto simp: list_all2_conv_all_nth)

lemma conforms_cat_tokens:
  "ts \<noteq> [] \<Longrightarrow> (\<And>t. t \<in> set ts \<Longrightarrow> conforms t msk) \<Longrightarrow> conforms (cat_tokens ts) msk"
proof (induction ts rule: cat_tokens.induct)
  case 1
  then show ?case by simp
next
  case (2 t)
  then show ?case by simp
next
  case (3 t u ts)
  then show ?case by (simp add: conforms_append)
qed

text \<open>Tensors of one shape are concatenated, and the result has that shape.\<close>

lemma cat2_total:
  assumes "ts \<noteq> []" and "\<And>t. t \<in> set ts \<Longrightarrow> conforms t msk"
  shows "\<exists>r. cat2 ts = Inr r \<and> conforms r msk"
proof -
  from assms(1) obtain t us where ts: "ts = t # us" by (cases ts) auto
  have "conforms u t" if "u \<in> set us" for u
    using assms(2) [of u] assms(2) [of t] that
    by (auto simp: ts intro: conforms_trans conforms_sym)
  then have "cat2 ts = Inr (cat_tokens ts)"
    by (simp add: cat2_def ts list_all_iff)
  with conforms_cat_tokens [OF assms] show ?thesis by simp
qed

lemma cat2_defined: "cat2 ts \<noteq> Inl UndefinedSoftmax"
  by (simp add: cat2_def split: list.splits)

lemma Embedding_forward_total:
  assumes "ids_below (length w) x"
  shows "\<exists>v. Embedding_forward w x = Inr v \<and> conforms v x"
proof -
  have inner: "\<exists>r. map_err (\<lambda>i. if i < length w then Inr (w ! i) else Inl IndexError) ids = Inr r
                 \<and> length r = length ids"
    if "list_all (\<lambda>i. i < length w) ids" for ids
    using that by (induction ids) auto
  from assms show ?thesis
    unfolding Embedding_forward_def ids_below_def conforms_def
  proof (induction x)
    case Nil
    then show ?case by simp
  next
    case (Cons ids x)
    then obtain r v where
      "map_err (\<lambda>i. if i < length w then Inr (w ! i) else Inl IndexError) ids = Inr r"
      "length r = length ids"
      "map_err (map_err (\<lambda>i. if i < length w then Inr (w ! i) else Inl IndexError)) x = Inr v"
      "list_all2 (\<lambda>s r. length s = length r) v x"
      using inner [of ids] by auto
    then show ?case by simp
  qed
qed

lemma Embedding_forward_defined: "Embedding_forward w x \<noteq> Inl UndefinedSoftmax"
proof
  assume "Embedding_forward w x = Inl UndefinedSoftmax"
  then obtain ids where
    "map_err (\<lambda>i. if i < length w then Inr (w ! i) else Inl IndexError) ids
       = Inl UndefinedSoftmax"
    unfolding Embedding_forward_def by (blast dest: map_err_Inl)
  then obtain i where "(if i < length w then Inr (w ! i) else Inl IndexError)
      = (Inl UndefinedSoftmax :: error + vec)"
    by (blast dest: map_err_Inl)
  then show False by (simp split: if_splits)
qed

lemma masked_softmax_defined:
  "list_ex Not msk \<Longrightarrow> masked_softmax scores msk \<noteq> Inl UndefinedSoftmax"
  using exps_sum_zero_iff [of scores msk]
  by (auto simp: masked_softmax_def Let_def list_all_iff list_ex_iff)

lemma attn_weights_defined:
  "list_ex Not y_mask \<Longrightarrow> attn_weights proj x y y_mask \<noteq> Inl UndefinedSoftmax"
  unfolding attn_weights_def by (auto dest!: map_err_Inl simp: masked_softmax_defined)

lemma SymBilinearAttnMatch_weights_defined:
  assumes "nondegenerate y_mask"
  shows "SymBilinearAttnMatch_weights proj x y y_mask \<noteq> Inl UndefinedSoftmax"
proof
  assume a: "SymBilinearAttnMatch_weights proj x y y_mask = Inl UndefinedSoftmax"
  then have "map_err (\<lambda>(xb, yb, mb). attn_weights proj xb yb mb) (zip x (zip y y_mask))
      = Inl UndefinedSoftmax"
    by (simp add: SymBilinearAttnMatch_weights_def split: if_splits)
  then obtain xb yb mb where "(xb, yb, mb) \<in> set (zip x (zip y y_mask))"
    "attn_weights proj xb yb mb = Inl UndefinedSoftmax"
    by (auto dest!: map_err_Inl)
  moreover from this have "mb \<in> set y_mask" by (auto dest!: set_zip_rightD)
  ultimately show False
    using assms by (auto simp: nondegenerate_def list_all_iff attn_weights_defined)
qed

lemma SymBilinearAttnMatch_defined:
  assumes "nondegenerate y_mask"
  shows "SymBilinearAttnMatch proj x y y_mask v \<noteq> Inl UndefinedSoftmax"
  unfolding SymBilinearAttnMatch_def
  by (rule bind_err_not) (simp_all add: SymBilinearAttnMatch_weights_defined assms)

lemma attn_weights_total:
  assumes "length y = length y_mask" and "list_ex Not y_mask"
  shows "\<exists>w. attn_weights proj x y y_mask = Inr w"
  unfolding attn_weights_def
  by (rule map_err_total) (simp add: masked_softmax_Inr_iff assms)

lemma SymBilinearAttnMatch_weights_total:
  assumes "length x = length y_mask" and "conforms y y_mask" and "nondegenerate y_mask"
  shows "\<exists>w. SymBilinearAttnMatch_weights proj x y y_mask = Inr w"
proof -
  have len: "length y = length y_mask" using assms(2) by (rule conforms_length)
  have "\<exists>wb. (case p of (xb, yb, mb) \<Rightarrow> attn_weights proj xb yb mb) = Inr wb"
    if "p \<in> set (zip x (zip y y_mask))" for p
  proof -
    obtain xb yb mb where p: "p = (xb, yb, mb)" by (cases p) auto
    with that have "(yb, mb) \<in> set (zip y y_mask)" by (auto dest: set_zip_rightD)
    then obtain i where "i < length y_mask" "yb = y ! i" "mb = y_mask ! i"
      by (auto simp: set_zip)
    with assms(2,3) have "length yb = length mb" "list_ex Not mb"
      by (auto simp: conforms_def nondegenerate_def list_all2_conv_all_nth list_all_length)
    then show ?thesis
      unfolding p by (simp add: attn_weights_total)
  qed
  then have "\<exists>w. map_err (\<lambda>(xb, yb, mb). attn_weights proj xb yb mb) (zip x (zip y y_mask)) = Inr w"
    by (rule map_err_total)
  with assms(1) len show ?thesis
    by (simp add: SymBilinearAttnMatch_weights_def)
qed

lemma SymBilinearAttnMatch_total:
  assumes "length x = length y_mask" and "conforms y y_mask" and "nondegenerate y_mask"
    and "conforms v y_mask"
  shows "\<exists>r. SymBilinearAttnMatch proj x y y_mask v = Inr r \<and> conforms r x"
proof -
  from SymBilinearAttnMatch_weights_total [OF assms(1-3)] obtain w where
    w: "SymBilinearAttnMatch_weights proj x y y_mask = Inr w" by blast
  then have cw: "conforms w x" by (rule SymBilinearAttnMatch_weights_distributions)
  have lv: "length v = length y_mask" using assms(4) by (rule conforms_length)
  have "conforms (map2 (\<lambda>vb wb. map (weighted_sum vb) wb) v w) x"
    using cw lv assms(1) unfolding conforms_def by (auto simp: list_all2_conv_all_nth)
  with w lv assms(4) show ?thesis
    by (simp add: SymBilinearAttnMatch_def conforms_def)
qed

lemma rnn_shapedD: "rnn_shaped f \<Longrightarrow> conforms x msk \<Longrightarrow> conforms (f tr x msk) msk"
  by (auto simp: rnn_shaped_def intro: conforms_trans)

lemma encode_defined: "encode m x1 x1_f x1_mask x2 x2_mask \<noteq> Inl UndefinedSoftmax"
  unfolding encode_def embed_ids_def Let_def
  by (intro bind_err_not Embedding_forward_defined cat2_defined)
     (simp_all split: option.splits if_splits)

lemma fuse_defined:
  assumes "nondegenerate x1_mask" and "nondegenerate x2_mask"
  shows "fuse m e x1_mask x2_mask \<noteq> Inl UndefinedSoftmax"
  unfolding fuse_def Let_def history_of_doc_word_def history_of_question_word_def
  by (intro bind_err_not cat2_defined SymBilinearAttnMatch_defined assms) simp_all

lemma attention_weights_defined:
  assumes "nondegenerate x1_mask" and "nondegenerate x2_mask"
  shows "attention_weights m x1 x1_f x1_mask x2 x2_mask \<noteq> Inl UndefinedSoftmax"
  unfolding attention_weights_def history_of_doc_word_def history_of_question_word_def
  by (intro bind_err_not cat2_defined SymBilinearAttnMatch_weights_defined encode_defined
      fuse_defined assms) simp_all

lemma encode_total:
  assumes c: "cove_encoder m = Some c" "cove_shaped c"
    and q: "use_qemb (args m) \<Longrightarrow> \<exists>qm. qemb_match m = Some qm \<and> qemb_shaped qm"
    and l: "layers_shaped (layers m)"
    and ids: "ids_below (length (embedding m)) x1" "ids_below (length (embedding m)) x2"
    and x: "conforms x1 x1_mask" "conforms x2 x2_mask"
    and f: "0 < num_features (args m) \<Longrightarrow> conforms x1_f x1_mask"
  shows "\<exists>e. encode m x1 x1_f x1_mask x2 x2_mask = Inr e
           \<and> conforms (x1_word_emb e) x1_mask \<and> conforms (x1_cove_emb e) x1_mask
           \<and> conforms (low_level_doc_hiddens e) x1_mask
           \<and> conforms (high_level_doc_hiddens e) x1_mask
           \<and> conforms (x2_word_emb e) x2_mask \<and> conforms (x2_cove_emb e) x2_mask
           \<and> conforms (low_level_question_hiddens e) x2_mask
           \<and> conforms (high_level_question_hiddens e) x2_mask
           \<and> conforms (understanding_question_hiddens e) x2_mask"
proof -
  let ?p = "dropout_emb (args m)" and ?tr = "training m"
  from l have r: "rnn_shaped (reading_low_level_doc_rnn (layers m))"
    "rnn_shaped (reading_low_level_question_rnn (layers m))"
    "rnn_shaped (reading_high_level_doc_rnn (layers m))"
    "rnn_shaped (reading_high_level_question_rnn (layers m))"
    "rnn_shaped (understanding_question_rnn (layers m))"
    and dr: "dropout_shaped (dropout_sample (layers m))"
    by (simp_all add: layers_shaped_def)
  have drop: "conforms (F_dropout (layers m) t ?p ?tr) msk" if "conforms t msk" for t msk
    using dr that by (auto simp: F_dropout_def dropout_shaped_def intro: conforms_trans)
  from Embedding_forward_total [OF ids(1)] obtain v1 where
    v1: "embed_ids m x1 = Inr v1" "conforms v1 x1" by (auto simp: embed_ids_def)
  from Embedding_forward_total [OF ids(2)] obtain v2 where
    v2: "embed_ids m x2 = Inr v2" "conforms v2 x2" by (auto simp: embed_ids_def)
  have w1: "conforms v1 x1_mask" using v1(2) x(1) by (rule conforms_trans)
  have w2: "conforms v2 x2_mask" using v2(2) x(2) by (rule conforms_trans)
  define c1 where "c1 = c v1 (lengths x1_mask)"
  define c2 where "c2 = c v2 (lengths x2_mask)"
  have cc: "conforms c1 x1_mask" "conforms c2 x2_mask"
    using c(2) w1 w2 by (auto simp: c1_def c2_def cove_shaped_def intro: conforms_trans)
  from cat2_total [of "[v1, c1]" x1_mask] w1 cc obtain e1 where
    e1: "cat2 [v1, c1] = Inr e1" "conforms e1 x1_mask" by auto
  from cat2_total [of "[v2, c2]" x2_mask] w2 cc obtain e2 where
    e2: "cat2 [v2, c2] = Inr e2" "conforms e2 x2_mask" by auto
  define d1 where "d1 = (if 0 < ?p then F_dropout (layers m) e1 ?p ?tr else e1)"
  define d2 where "d2 = (if 0 < ?p then F_dropout (layers m) e2 ?p ?tr else e2)"
  have dd: "conforms d1 x1_mask" "conforms d2 x2_mask"
    using e1(2) e2(2) by (auto simp: d1_def d2_def drop)
  obtain dl where dl: "(if use_qemb (args m)
               then (case qemb_match m of
                       None \<Rightarrow> Inl AttributeError
                     | Some q \<Rightarrow> Inr [d1, q v1 v2 x2_mask])
               else Inr [d1]) = Inr dl" "dl \<noteq> []" "\<forall>t\<in>set dl. conforms t x1_mask"
  proof (cases "use_qemb (args m)")
    case True
    with q obtain qm where "qemb_match m = Some qm" "qemb_shaped qm" by blast
    moreover from this have "conforms (qm v1 v2 x2_mask) x1_mask"
      using w1 by (auto simp: qemb_shaped_def intro: conforms_trans)
    ultimately show ?thesis using True dd(1) that by simp
  next
    case False
    then show ?thesis using dd(1) that by simp
  qed
  define di where "di = (if 0 < num_features (args m) then dl @ [x1_f] else dl)"
  have "di \<noteq> []" "\<And>t. t \<in> set di \<Longrightarrow> conforms t x1_mask"
    using dl(2,3) f by (auto simp: di_def split: if_splits)
  from cat2_total [OF this] obtain dc where
    dc: "cat2 di = Inr dc" "conforms dc x1_mask" by blast
  define ld where "ld = reading_low_level_doc_rnn (layers m) ?tr dc x1_mask"
  define lq where "lq = reading_low_level_question_rnn (layers m) ?tr d2 x2_mask"
  define hd where "hd = reading_high_level_doc_rnn (layers m) ?tr ld x1_mask"
  define hq where "hq = reading_high_level_question_rnn (layers m) ?tr lq x2_mask"
  have h1: "conforms ld x1_mask"
    unfolding ld_def using r(1) dc(2) by (rule rnn_shapedD)
  have h2: "conforms lq x2_mask"
    unfolding lq_def using r(2) dd(2) by (rule rnn_shapedD)
  have h3: "conforms hd x1_mask"
    unfolding hd_def using r(3) h1 by (rule rnn_shapedD)
  have h4: "conforms hq x2_mask"
    unfolding hq_def using r(4) h2 by (rule rnn_shapedD)
  note h = h1 h2 h3 h4
  from cat2_total [of "[lq, hq]" x2_mask] h obtain ui where
    ui: "cat2 [lq, hq] = Inr ui" "conforms ui x2_mask" by auto
  have u: "conforms (understanding_question_rnn (layers m) ?tr ui x2_mask) x2_mask"
    using r(5) ui(2) by (rule rnn_shapedD)
  have "encode m x1 x1_f x1_mask x2 x2_mask =
     Inr \<lparr> x1_word_emb = v1, x2_word_emb = v2, x1_cove_emb = c1, x2_cove_emb = c2,
           low_level_doc_hiddens = ld, low_level_question_hiddens = lq,
           high_level_doc_hiddens = hd, high_level_question_hiddens = hq,
           understanding_question_hiddens =
             understanding_question_rnn (layers m) ?tr ui x2_mask \<rparr>"
    using dl(1) dc(1) ui(1) e1(1) e2(1)
    unfolding di_def hd_def hq_def ld_def lq_def d1_def d2_def c1_def c2_def
    by (simp add: encode_def v1(1) v2(1) c(1) Let_def)
  with w1 w2 cc h u show ?thesis by simp
qed

lemma fuse_total:
  assumes d: "conforms (x1_word_emb e) x1_mask" "conforms (x1_cove_emb e) x1_mask"
      "conforms (low_level_doc_hiddens e) x1_mask" "conforms (high_level_doc_hiddens e) x1_mask"
    and q: "conforms (x2_word_emb e) x2_mask" "conforms (x2_cove_emb e) x2_mask"
      "conforms (low_level_question_hiddens e) x2_mask"
      "conforms (high_level_question_hiddens e) x2_mask"
      "conforms (understanding_question_hiddens e) x2_mask"
    and r: "rnn_shaped (multi_level_rnn (layers m))"
    and n: "nondegenerate x1_mask" "nondegenerate x2_mask"
    and b: "length x1_mask = length x2_mask"
  shows "\<exists>f. fuse m e x1_mask x2_mask = Inr f"
proof -
  from cat2_total [of "[x1_word_emb e, x1_cove_emb e, low_level_doc_hiddens e,
      high_level_doc_hiddens e]" x1_mask] d
  obtain hd where hd: "history_of_doc_word e = Inr hd" "conforms hd x1_mask"
    by (auto simp: history_of_doc_word_def)
  from cat2_total [of "[x2_word_emb e, x2_cove_emb e, low_level_question_hiddens e,
      low_level_question_hiddens e]" x2_mask] q
  obtain hq where hq: "history_of_question_word e = Inr hq" "conforms hq x2_mask"
    by (auto simp: history_of_question_word_def)
  have lhd: "length hd = length x2_mask"
    using conforms_length [OF hd(2)] b by simp
  from SymBilinearAttnMatch_total [OF lhd hq(2) n(2) q(3)] obtain low_v where
    low: "SymBilinearAttnMatch (low_level_matrix_attention_layer (layers m)) hd hq x2_mask
            (low_level_question_hiddens e) = Inr low_v" "conforms low_v hd"
    by blast
  from SymBilinearAttnMatch_total [OF lhd hq(2) n(2) q(4)] obtain high_v where
    high: "SymBilinearAttnMatch (high_level_matrix_attention_layer (layers m)) hd hq x2_mask
            (high_level_question_hiddens e) = Inr high_v" "conforms high_v hd"
    by blast
  from SymBilinearAttnMatch_total [OF lhd hq(2) n(2) q(5)] obtain und_v where
    und: "SymBilinearAttnMatch (understanding_matrix_attention_layer (layers m)) hd hq x2_mask
            (understanding_question_hiddens e) = Inr und_v" "conforms und_v hd"
    by blast
  have v: "conforms low_v x1_mask" "conforms high_v x1_mask" "conforms und_v x1_mask"
    using low(2) high(2) und(2) hd(2) by (blast intro: conforms_trans)+
  from cat2_total [of "[low_level_doc_hiddens e, high_level_doc_hiddens e, low_v, high_v,
      und_v]" x1_mask] d v
  obtain mi where mi: "cat2 [low_level_doc_hiddens e, high_level_doc_hiddens e, low_v, high_v,
      und_v] = Inr mi" "conforms mi x1_mask" by auto
  define fa where "fa = multi_level_rnn (layers m) (training m) mi x1_mask"
  have fa: "conforms fa x1_mask"
    unfolding fa_def using r mi(2) by (rule rnn_shapedD)
  from cat2_total [of "[x1_word_emb e, x1_cove_emb e, low_level_doc_hiddens e,
      high_level_doc_hiddens e, low_v, high_v, und_v, fa]" x1_mask] d v fa
  obtain h2 where h2: "cat2 [x1_word_emb e, x1_cove_emb e, low_level_doc_hiddens e,
      high_level_doc_hiddens e, low_v, high_v, und_v, fa] = Inr h2" "conforms h2 x1_mask"
    by auto
  from SymBilinearAttnMatch_total [OF conforms_length [OF h2(2)] h2(2) n(1) fa]
  obtain self_v where
    self: "SymBilinearAttnMatch (self_boosted_matrix_attention_layer (layers m)) h2 h2 x1_mask fa
             = Inr self_v" "conforms self_v h2"
    by blast
  have "conforms self_v x1_mask" using self(2) h2(2) by (rule conforms_trans)
  from cat2_total [of "[fa, self_v]" x1_mask] fa this obtain ud where
    ud: "cat2 [fa, self_v] = Inr ud" by auto
  show ?thesis
    using self(1) h2(1) ud mi(1) unfolding fa_def
    by (simp add: fuse_def hd(1) hq(1) low(1) high(1) und(1) Let_def)
qed

text \<open>
  Claim C2, amended. When every question and every document has a position that is not
  padding, no softmax of the four attention layers is left undefined; whenever the four
  attention weight matrices are computed, every row of each is a distribution over the key
  positions that are not padding: of sum one, zero at every padding key position whatever
  its score, positive elsewhere; and they are computed for every pass that gets through
  the encoders (the layers keep the shapes of what they read, the ids are rows of the
  embedding, ids, masks and features are of one shape). The keys are the question for the
  three attention passes of the document over the question, and the document for the
  self-boosted attention.
\<close>

theorem attention_rows_are_distributions:
  assumes "nondegenerate x1_mask" and "nondegenerate x2_mask"
  shows "attention_weights m x1 x1_f x1_mask x2 x2_mask \<noteq> Inl UndefinedSoftmax
         \<and> (\<forall>low_w high_w und_w self_w.
               attention_weights m x1 x1_f x1_mask x2 x2_mask
                 = Inr (low_w, high_w, und_w, self_w) \<longrightarrow>
               attention_distributions low_w x2_mask
               \<and> attention_distributions high_w x2_mask
               \<and> attention_distributions und_w x2_mask
               \<and> attention_distributions self_w x1_mask)
         \<and> (well_formed_pass m x1 x1_f x1_mask x2 x2_mask \<longrightarrow>
               (\<exists>low_w high_w und_w self_w.
                  attention_weights m x1 x1_f x1_mask x2 x2_mask
                    = Inr (low_w, high_w, und_w, self_w)
                  \<and> attention_distributions low_w x2_mask
                  \<and> attention_distributions high_w x2_mask
                  \<and> attention_distributions und_w x2_mask
                  \<and> attention_distributions self_w x1_mask))"
proof (intro conjI allI impI)
  show "attention_weights m x1 x1_f x1_mask x2 x2_mask \<noteq> Inl UndefinedSoftmax"
    using assms by (rule attention_weights_defined)
next
  fix low_w high_w und_w self_w
  assume a: "attention_weights m x1 x1_f x1_mask x2 x2_mask = Inr (low_w, high_w, und_w, self_w)"
  then obtain e f where "encode m x1 x1_f x1_mask x2 x2_mask = Inr e"
    "fuse m e x1_mask x2_mask = Inr f"
    by (auto simp: attention_weights_def bind_err_Inr_iff)
  from attention_weights_of_fuse [OF this] a
  show "attention_distributions low_w x2_mask" "attention_distributions high_w x2_mask"
    "attention_distributions und_w x2_mask" "attention_distributions self_w x1_mask"
    by auto
next
  assume w: "well_formed_pass m x1 x1_f x1_mask x2 x2_mask"
  then obtain c where c: "cove_encoder m = Some c" "cove_shaped c"
    by (auto simp: well_formed_pass_def split: option.splits)
  from w have q: "use_qemb (args m) \<Longrightarrow> \<exists>qm. qemb_match m = Some qm \<and> qemb_shaped qm"
    by (auto simp: well_formed_pass_def split: option.splits if_splits)
  from w have l: "layers_shaped (layers m)"
    and ids: "ids_below (length (embedding m)) x1" "ids_below (length (embedding m)) x2"
    and x: "conforms x1 x1_mask" "conforms x2 x2_mask"
    and b: "length x1_mask = length x2_mask"
    by (simp_all add: well_formed_pass_def)
  from w have ft: "0 < num_features (args m) \<Longrightarrow> conforms x1_f x1_mask"
    by (simp add: well_formed_pass_def)
  from encode_total [OF c q l ids x ft] obtain e where
    e: "encode m x1 x1_f x1_mask x2 x2_mask = Inr e"
    and d: "conforms (x1_word_emb e) x1_mask" "conforms (x1_cove_emb e) x1_mask"
      "conforms (low_level_doc_hiddens e) x1_mask" "conforms (high_level_doc_hiddens e) x1_mask"
    and qq: "conforms (x2_word_emb e) x2_mask" "conforms (x2_cove_emb e) x2_mask"
      "conforms (low_level_question_hiddens e) x2_mask"
      "conforms (high_level_question_hiddens e) x2_mask"
      "conforms (understanding_question_hiddens e) x2_mask"
    by blast
  from l have r: "rnn_shaped (multi_level_rnn (layers m))"
    by (simp add: layers_shaped_def)
  from fuse_total [OF d qq r assms b] obtain f where
    f: "fuse m e x1_mask x2_mask = Inr f" by blast
  from attention_weights_of_fuse [OF e f]
  show "\<exists>low_w high_w und_w self_w.
          attention_weights m x1 x1_f x1_mask x2 x2_mask = Inr (low_w, high_w, und_w, self_w)
          \<and> attention_distributions low_w x2_mask
          \<and> attention_distributions high_w x2_mask
          \<and> attention_distributions und_w x2_mask
          \<and> attention_distributions self_w x1_mask"
    by blast
qed

lemma const_rnn_shaped: "rnn_shaped (const_rnn v)"
  by (simp add: rnn_shaped_def const_rnn_def conforms_def list_all2_conv_all_nth)

lemma tiny_layers_shaped: "layers_shaped tiny_learned"
  by (simp add: layers_shaped_def const_rnn_shaped tiny_learned_def dropout_shaped_def
      conforms_def list_all2_refl)

lemma tiny_cove_shaped: "cove_shaped (MTLSTM tiny_learned)"
  by (simp add: cove_shaped_def tiny_learned_def conforms_def list_all2_conv_all_nth)

lemma tiny_attention_weights:
  "attention_weights tiny_reader [[2, 2, 0]] [[[], [], []]] [[False, False, True]] [[2, 2]]
     [[False, False]]
   = Inr ([[[1 / 2, 1 / 2], [1 / 2, 1 / 2], [1 / 2, 1 / 2]]],
          [[[1 / 2, 1 / 2], [1 / 2, 1 / 2], [1 / 2, 1 / 2]]],
          [[[1 / 2, 1 / 2], [1 / 2, 1 / 2], [1 / 2, 1 / 2]]],
          [[[1 / 2, 1 / 2, 0], [1 / 2, 1 / 2, 0], [1 / 2, 1 / 2, 0]]])"
proof -
  have t: "tiny_reader\<lparr>training := True\<rparr> = tiny_reader" by (simp add: tiny_reader_def)
  have e: "encode tiny_reader [[2, 2, 0]] [[[], [], []]] [[False, False, True]] [[2, 2]]
     [[False, False]] = Inr tiny_encoded"
    using tiny_encode [of True] by (simp only: t)
  have f: "fuse tiny_reader tiny_encoded [[False, False, True]] [[False, False]] = Inr tiny_fused"
    using tiny_fuse [of True] by (simp only: t)
  show ?thesis
    by (simp add: attention_weights_def e f)
       (simp add: history_of_doc_word_def history_of_question_word_def
          SymBilinearAttnMatch_weights_def attn_weights_def masked_softmax_def exps_def dot_def
          tiny_reader_def tiny_learned_def cat2_def conforms_def tiny_encoded_def tiny_fused_def)
qed

theorem attention_rows_are_distributions_witness:
  "well_formed_pass tiny_reader [[2, 2, 0]] [[[], [], []]] [[False, False, True]] [[2, 2]]
     [[False, False]]
   \<and> nondegenerate [[False, False, True]] \<and> nondegenerate [[False, False]]
   \<and> attention_weights tiny_reader [[2, 2, 0]] [[[], [], []]] [[False, False, True]] [[2, 2]]
        [[False, False]]
      = Inr ([[[1 / 2, 1 / 2], [1 / 2, 1 / 2], [1 / 2, 1 / 2]]],
             [[[1 / 2, 1 / 2], [1 / 2, 1 / 2], [1 / 2, 1 / 2]]],
             [[[1 / 2, 1 / 2], [1 / 2, 1 / 2], [1 / 2, 1 / 2]]],
             [[[1 / 2, 1 / 2, 0], [1 / 2, 1 / 2, 0], [1 / 2, 1 / 2, 0]]])
   \<and> attention_distributions [[[1 / 2, 1 / 2], [1 / 2, 1 / 2], [1 / 2, 1 / 2]]] [[False, False]]
   \<and> attention_distributions [[[1 / 2, 1 / 2, 0], [1 / 2, 1 / 2, 0], [1 / 2, 1 / 2, 0]]]
        [[False, False, True]]"
proof -
  have w: "well_formed_pass tiny_reader [[2, 2, 0]] [[[], [], []]] [[False, False, True]]
     [[2, 2]] [[False, False]]"
    using tiny_layers_shaped tiny_cove_shaped
    by (simp add: well_formed_pass_def ids_below_def conforms_def tiny_reader_def tiny_args_def)
  have n: "nondegenerate [[False, False, True]]" "nondegenerate [[False, False]]"
    by (simp_all add: nondegenerate_def)
  from attention_rows_are_distributions [OF n, of tiny_reader "[[2, 2, 0]]" "[[[], [], []]]"
      "[[2, 2]]"] w n
  show ?thesis
    by (auto simp: tiny_attention_weights)
qed

text \<open>
  Claim C2 as it is stated asks for a position that is not padding in every question only.
  A document of padding alone with such a question: the self-boosted attention has every
  key masked, its softmax has denominator zero, and no weights are defined.
\<close>

theorem attention_rows_counterexample:
  "FusionNetReader tiny_args tiny_learned = Inr tiny_reader
   \<and> well_formed_pass tiny_reader [[0, 0, 0]] [[[], [], []]] [[True, True, True]] [[2, 2]]
        [[False, False]]
   \<and> nondegenerate [[False, False]]
   \<and> attention_weights tiny_reader [[0, 0, 0]] [[[], [], []]] [[True, True, True]] [[2, 2]]
        [[False, False]] = Inl UndefinedSoftmax
   \<and> forward tiny_reader [[0, 0, 0]] [[[], [], []]] [[True, True, True]] [[2, 2]]
        [[False, False]] = Inl UndefinedSoftmax"
proof -
  let ?e = "tiny_encoded\<lparr>
        x1_word_emb := [[replicate 300 0, replicate 300 0, replicate 300 0]],
        x1_cove_emb := [[replicate 300 0 @ replicate 300 0, replicate 300 0 @ replicate 300 0,
                         replicate 300 0 @ replicate 300 0]]\<rparr>"
  have w: "well_formed_pass tiny_reader [[0, 0, 0]] [[[], [], []]] [[True, True, True]]
     [[2, 2]] [[False, False]]"
    using tiny_layers_shaped tiny_cove_shaped
    by (simp add: well_formed_pass_def ids_below_def conforms_def tiny_reader_def tiny_args_def)
  have e: "encode tiny_reader [[0, 0, 0]] [[[], [], []]] [[True, True, True]] [[2, 2]]
     [[False, False]] = Inr ?e"
    by (simp add: encode_def Embedding_forward_def tiny_defs lengths_def tiny_encoded_def)
  have f: "fuse tiny_reader ?e [[True, True, True]] [[False, False]] = Inl UndefinedSoftmax"
    by (simp add: fuse_def history_of_doc_word_def history_of_question_word_def attn_defs
      tiny_defs tiny_encoded_def Let_def)
  have a: "attention_weights tiny_reader [[0, 0, 0]] [[[], [], []]] [[True, True, True]] [[2, 2]]
        [[False, False]] = Inl UndefinedSoftmax"
    by (simp add: attention_weights_def e f)
       (simp add: history_of_doc_word_def history_of_question_word_def
          SymBilinearAttnMatch_weights_def attn_weights_def masked_softmax_def exps_def dot_def
          tiny_defs tiny_encoded_def)
  have fw: "forward tiny_reader [[0, 0, 0]] [[[], [], []]] [[True, True, True]] [[2, 2]]
        [[False, False]] = Inl UndefinedSoftmax"
    by (simp add: forward_def forward_scores_def e f)
  from w a fw tiny_reader_built show ?thesis
    by (simp add: nondegenerate_def)
qed

subsection \<open>Padding\<close>

lemma Embedding_forward_nth:
  assumes "Embedding_forward w x = Inr v" and "b < length x" and "i < length (x ! b)"
  shows "x ! b ! i < length w \<and> v ! b ! i = w ! (x ! b ! i)"
proof -
  let ?f = "\<lambda>i. if i < length w then Inr (w ! i) else Inl IndexError"
  from assms(1,2) have "map_err ?f (x ! b) = Inr (v ! b)"
    by (simp add: Embedding_forward_def map_err_Inr_iff list_all2_conv_all_nth)
  with assms(3) have "?f (x ! b ! i) = Inr (v ! b ! i)"
    by (simp add: map_err_Inr_iff list_all2_conv_all_nth)
  then show ?thesis by (simp split: if_splits)
qed

lemma encode_embeddings:
  assumes "encode m x1 x1_f x1_mask x2 x2_mask = Inr e"
  shows "embed_ids m x1 = Inr (x1_word_emb e)"
    and "embed_ids m x2 = Inr (x2_word_emb e)"
  using assms by (auto simp: encode_def bind_err_Inr_iff Let_def)

lemma after_calls_embedding:
  "embedding (after_calls m cs) = embedding m"
  by (induction m cs rule: after_calls.induct) (simp_all add: forward_call_def split: prod.splits)

lemma padding_row:
  assumes "FusionNetReader a w = Inr m" and "embed_ids (after_calls m cs) x = Inr v"
    and "b < length x" and "i < length (x ! b)" and "x ! b ! i = 0"
  shows "v ! b ! i = replicate (embedding_dim a) 0"
proof -
  from assms(1) have e: "embedding m = (embedding_weight w)[0 := replicate (embedding_dim a) 0]"
    by (auto simp: FusionNetReader_def Embedding_def bind_err_Inr_iff split: if_splits)
  from assms(2) have "Embedding_forward (embedding m) x = Inr v"
    by (simp add: embed_ids_def after_calls_embedding)
  from Embedding_forward_nth [OF this assms(3,4)] assms(5)
  have "0 < length (embedding m)" "v ! b ! i = embedding m ! 0" by simp_all
  then show ?thesis by (simp add: e)
qed

text \<open>
  Claim C8. Token id 0 is the padding index of the embedding. In a module that the
  constructor built, whatever the configuration says about CoVe or the embedding size, and
  after any series of calls of \<open>forward\<close> in either mode, whether they returned or raised:
  the lookup of a batch of token ids gives the zero vector of \<open>embedding_dim\<close> entries at
  every position that holds id 0; it returns for every batch of ids below the vocabulary
  size; and it is the lookup \<open>forward\<close> makes for the document and for the question.
\<close>

theorem padding_token_embeds_to_zero:
  assumes "FusionNetReader a w = Inr m"
  shows "(\<forall>v. embed_ids (after_calls m cs) x = Inr v \<longrightarrow>
            (\<forall>b<length x. \<forall>i<length (x ! b). x ! b ! i = 0 \<longrightarrow>
               v ! b ! i = replicate (embedding_dim a) 0))
         \<and> (length (embedding_weight w) = vocab_size a \<and> ids_below (vocab_size a) x \<longrightarrow>
              (\<exists>v. embed_ids (after_calls m cs) x = Inr v \<and> conforms v x))
         \<and> (\<forall>e x1 x1_f x1_mask x2 x2_mask.
              encode (after_calls m cs) x1 x1_f x1_mask x2 x2_mask = Inr e \<longrightarrow>
              embed_ids (after_calls m cs) x1 = Inr (x1_word_emb e)
              \<and> embed_ids (after_calls m cs) x2 = Inr (x2_word_emb e))"
proof (intro conjI allI impI)
  fix v b i
  assume "embed_ids (after_calls m cs) x = Inr v" "b < length x" "i < length (x ! b)"
    "x ! b ! i = 0"
  with assms show "v ! b ! i = replicate (embedding_dim a) 0" by (rule padding_row)
next
  assume h: "length (embedding_weight w) = vocab_size a \<and> ids_below (vocab_size a) x"
  from assms have "length (embedding m) = length (embedding_weight w)"
    by (auto simp: FusionNetReader_def Embedding_def bind_err_Inr_iff split: if_splits)
  with h have "ids_below (length (embedding (after_calls m cs))) x"
    by (simp add: after_calls_embedding)
  from Embedding_forward_total [OF this]
  show "\<exists>v. embed_ids (after_calls m cs) x = Inr v \<and> conforms v x"
    by (simp add: embed_ids_def)
next
  fix e x1 x1_f x1_mask x2 x2_mask
  assume "encode (after_calls m cs) x1 x1_f x1_mask x2 x2_mask = Inr e"
  then show "embed_ids (after_calls m cs) x1 = Inr (x1_word_emb e)"
    "embed_ids (after_calls m cs) x2 = Inr (x2_word_emb e)"
    by (rule encode_embeddings)+
qed

text \<open>
  The witness: the small reader with CoVe switched off, after a call in training mode that
  raised \<open>AttributeError\<close>.
\<close>

theorem padding_token_embeds_to_zero_witness:
  "FusionNetReader (tiny_args\<lparr>use_cove := False\<rparr>) tiny_learned
     = Inr (tiny_reader\<lparr>args := tiny_args\<lparr>use_cove := False\<rparr>, cove_encoder := None\<rparr>)
   \<and> fst (forward_call (tiny_reader\<lparr>args := tiny_args\<lparr>use_cove := False\<rparr>,
                                      cove_encoder := None\<rparr>) True
            ([[2, 2, 0]], [[[], [], []]], [[False, False, True]], [[2, 2]], [[False, False]]))
       = Inl AttributeError
   \<and> embed_ids
        (after_calls (tiny_reader\<lparr>args := tiny_args\<lparr>use_cove := False\<rparr>, cove_encoder := None\<rparr>)
           [(True, ([[2, 2, 0]], [[[], [], []]], [[False, False, True]], [[2, 2]],
                    [[False, False]]))])
        [[2, 2, 0]]
       = Inr [[replicate 300 2, replicate 300 2, replicate 300 0]]
   \<and> [[2, 2, 0 :: nat]] ! 0 ! 2 = 0
   \<and> [[replicate 300 2, replicate 300 2, replicate 300 (0 :: real)]] ! 0 ! 2
       = replicate (embedding_dim (tiny_args\<lparr>use_cove := False\<rparr>)) 0"
proof -
  let ?m = "tiny_reader\<lparr>args := tiny_args\<lparr>use_cove := False\<rparr>, cove_encoder := None\<rparr>"
  let ?cs = "[(True, ([[2, 2, 0]], [[[], [], []]], [[False, False, True]], [[2, 2]],
                    [[False, False]]))]"
  have b: "FusionNetReader (tiny_args\<lparr>use_cove := False\<rparr>) tiny_learned = Inr ?m"
    by (simp add: FusionNetReader_def Embedding_def tiny_args_def tiny_learned_def tiny_reader_def)
  have c: "fst (forward_call ?m True
            ([[2, 2, 0]], [[[], [], []]], [[False, False, True]], [[2, 2]], [[False, False]]))
       = Inl AttributeError"
    by (simp add: forward_call_def forward_def forward_scores_def encode_def
        Embedding_forward_def tiny_defs)
  have l: "embed_ids (after_calls ?m ?cs) [[2, 2, 0]]
       = Inr [[replicate 300 2, replicate 300 2, replicate 300 0]]"
    unfolding embed_ids_def after_calls_embedding
    by (simp add: Embedding_forward_def tiny_reader_def)
  have z: "(0::nat) < length [[2, 2, 0 :: nat]]" "2 < length ([[2, 2, 0 :: nat]] ! 0)"
    "[[2, 2, 0 :: nat]] ! 0 ! 2 = 0"
    by simp_all
  from padding_token_embeds_to_zero [OF b, of ?cs "[[2, 2, 0]]"] l z
  have "[[replicate 300 2, replicate 300 2, replicate 300 (0 :: real)]] ! 0 ! 2
       = replicate (embedding_dim (tiny_args\<lparr>use_cove := False\<rparr>)) 0"
    by blast
  with b c l z(3) show ?thesis by simp
qed

end
